theory Spec2Isabelle
  imports Main "HOL-Library.Sublist"
begin

section \<open>Python strings\<close>

text \<open>
  A Python \<open>str\<close> is modelled as a \<open>string\<close> whose characters are the code points
  below 256. The library functions used by the sources are written out for that range.
\<close>

definition NL :: string where
  "NL = [CHR 0x0A]"

text \<open>\<open>str.lower()\<close>: the cased code points below 256 are A-Z and the Latin-1 capitals.\<close>

definition lower_char :: "char \<Rightarrow> char" where
  "lower_char c =
     (let n = (of_char c :: nat)
      in if (65 \<le> n \<and> n \<le> 90) \<or> (192 \<le> n \<and> n \<le> 214) \<or> (216 \<le> n \<and> n \<le> 222)
         then char_of (n + 32) else c)"

definition py_lower :: "string \<Rightarrow> string" where
  "py_lower s = map lower_char s"

text \<open>\<open>str.isspace()\<close> on one code point, as used by \<open>strip()\<close> and \<open>split()\<close>.\<close>

definition py_isspace :: "char \<Rightarrow> bool" where
  "py_isspace c =
     (let n = (of_char c :: nat)
      in (9 \<le> n \<and> n \<le> 13) \<or> (28 \<le> n \<and> n \<le> 32) \<or> n = 133 \<or> n = 160)"

definition py_strip :: "string \<Rightarrow> string" where
  "py_strip s = rev (dropWhile py_isspace (rev (dropWhile py_isspace s)))"

text \<open>
  \<open>s.replace(old, new)\<close>: non-overlapping occurrences, left to right; an empty \<open>old\<close>
  matches before every character and at the end.
\<close>

function py_replace :: "string \<Rightarrow> string \<Rightarrow> string \<Rightarrow> string" where
  "py_replace s old new =
     (if old = [] then new @ concat (map (\<lambda>c. c # new) s)
      else if s = [] then []
      else if take (length old) s = old then new @ py_replace (drop (length old) s) old new
      else hd s # py_replace (tl s) old new)"
  by pat_completeness auto
termination
  by (relation "measure (\<lambda>(s, old, new). length s)") auto

text \<open>\<open>sep.join(xs)\<close>\<close>

fun py_join :: "string \<Rightarrow> string list \<Rightarrow> string" where
  "py_join sep [] = []"
| "py_join sep [x] = x"
| "py_join sep (x # y # ys) = x @ sep @ py_join sep (y # ys)"

text \<open>\<open>xs[:n]\<close> for an integer \<open>n\<close>: a negative bound counts from the end.\<close>

definition py_slice_to :: "'a list \<Rightarrow> int \<Rightarrow> 'a list" where
  "py_slice_to xs n = (if 0 \<le> n then take (nat n) xs else take (length xs - nat (- n)) xs)"

text \<open>
  \<open>re.split\<close> with a pattern \<open>[...]+\<close>: the text is cut at every maximal run of
  characters of the class \<open>d\<close>; a run at either end leaves an empty segment there.
\<close>

function re_split_class :: "(char \<Rightarrow> bool) \<Rightarrow> string \<Rightarrow> string list" where
  "re_split_class d [] = [[]]"
| "re_split_class d (c # cs) =
     (if d c then [] # re_split_class d (dropWhile d cs)
      else (case re_split_class d cs of w # ws \<Rightarrow> (c # w) # ws | [] \<Rightarrow> [[c]]))"
  by pat_completeness auto
termination
  by (relation "measure (\<lambda>(d, s). length s)")
     (auto simp: length_dropWhile_le less_Suc_eq_le)


section \<open>Paths\<close>

text \<open>
  \<open>pathlib.Path\<close> in its POSIX flavour: a root (\<open>''''\<close>, \<open>''/''\<close> or \<open>''//''\<close>) and the
  list of components. Parsing drops empty and \<open>.\<close> components; joining with an absolute
  path answers that path. Paths are pure: \<open>..\<close> and symbolic links are not resolved.
\<close>

record Path =
  root :: string
  parts :: "string list"

fun split_char :: "char \<Rightarrow> string \<Rightarrow> string list" where
  "split_char sep [] = [[]]"
| "split_char sep (c # cs) =
     (if c = sep then [] # split_char sep cs
      else (case split_char sep cs of w # ws \<Rightarrow> (c # w) # ws | [] \<Rightarrow> [[c]]))"

definition path_root :: "string \<Rightarrow> string" where
  "path_root s =
     (if take 1 s \<noteq> ''/'' then ''''
      else if take 2 s = ''//'' \<and> take 3 s \<noteq> ''///'' then ''//''
      else ''/'')"

definition parse_path :: "string \<Rightarrow> Path" where
  "parse_path s =
     \<lparr>root = path_root s,
      parts = filter (\<lambda>p. p \<noteq> [] \<and> p \<noteq> ''.'') (split_char (CHR ''/'') s)\<rparr>"

text \<open>\<open>p / s\<close>\<close>

definition joinpath :: "Path \<Rightarrow> string \<Rightarrow> Path" where
  "joinpath p s =
     (let q = parse_path s
      in if root q \<noteq> [] then q else \<lparr>root = root p, parts = parts p @ parts q\<rparr>)"

text \<open>\<open>p.parent\<close>\<close>

definition path_parent :: "Path \<Rightarrow> Path" where
  "path_parent p = p\<lparr>parts := butlast (parts p)\<rparr>"

text \<open>\<open>str(p)\<close>\<close>

definition path_str :: "Path \<Rightarrow> string" where
  "path_str p =
     (if root p = [] \<and> parts p = [] then ''.'' else root p @ py_join ''/'' (parts p))"


section \<open>Pipeline configuration\<close>

record PipelineConfig =
  subject_name :: string
  subject_context :: "string option"
  data_dir :: string
  models_dir :: string
  audio_url :: "string option"
  audio_file :: "string option"
  gguf_model :: string
  enable_voice :: bool
  language :: string

text \<open>The dataclass constructor with its defaults, as \<open>create_human\<close> calls it.\<close>

definition PipelineConfig_init ::
  "string \<Rightarrow> string option \<Rightarrow> string option \<Rightarrow> string option \<Rightarrow> PipelineConfig" where
  "PipelineConfig_init nm ctx url file =
     \<lparr>subject_name = nm, subject_context = ctx,
      data_dir = ''data/subjects'', models_dir = ''models'',
      audio_url = url, audio_file = file,
      gguf_model = ''models/gguf/qwen2.5-coder-7b-instruct-q4_k_m.gguf'',
      enable_voice = True, language = ''fr''\<rparr>"

definition get_subject_dir :: "PipelineConfig \<Rightarrow> Path" where
  "get_subject_dir c =
     (let safe_name = py_replace (py_lower (subject_name c)) '' '' ''_''
      in joinpath (parse_path (data_dir c)) safe_name)"

text \<open>
  The normalisation in the specification's words: every character lowercased, every
  space turned into an underscore.
\<close>

definition subject_key :: "string \<Rightarrow> string" where
  "subject_key nm = map (\<lambda>c. if c = CHR '' '' then CHR ''_'' else c) (map lower_char nm)"


section \<open>Transcription summary\<close>

definition sentence_delim :: "char \<Rightarrow> bool" where
  "sentence_delim c = (c = CHR ''.'' \<or> c = CHR ''!'' \<or> c = CHR ''?'')"

text \<open>\<open>[s.strip() for s in sentences if s.strip()]\<close>\<close>

fun strip_nonempty :: "string list \<Rightarrow> string list" where
  "strip_nonempty [] = []"
| "strip_nonempty (s # ss) =
     (if py_strip s \<noteq> [] then py_strip s # strip_nonempty ss else strip_nonempty ss)"

text \<open>The loop that collects the summary points.\<close>

fun summary_points :: "string list \<Rightarrow> string list \<Rightarrow> string list" where
  "summary_points acc [] = acc"
| "summary_points acc (sentence # rest) =
     (if length sentence > 20 then summary_points (acc @ [''- '' @ sentence]) rest
      else summary_points acc rest)"

definition generate_summary :: "string \<Rightarrow> int \<Rightarrow> string" where
  "generate_summary text max_points =
     (let sentences = strip_nonempty (re_split_class sentence_delim text)
      in if sentences = [] then ''Aucun contenu a resumer.''
         else let summary_sentences = py_slice_to sentences max_points;
                  points = summary_points [] summary_sentences
              in if points = [] then ''Contenu trop court pour resumer.''
                 else py_join NL points)"

text \<open>
  The summary in the specification's words: the first \<open>N\<close> non-empty sentences, each as
  a line that starts with \<open>- \<close>.
\<close>

definition first_sentences_summary :: "string \<Rightarrow> nat \<Rightarrow> string" where
  "first_sentences_summary text n =
     py_join NL (map (\<lambda>s. ''- '' @ s)
       (take n (strip_nonempty (re_split_class sentence_delim text))))"


section \<open>Exceptions, JSON documents and the file system\<close>

text \<open>
  A raised exception is a value: its class name and the string \<open>str(e)\<close> that the
  handlers of the pipeline record. \<open>Inl\<close> of a result is a raise.
\<close>

datatype exn = Exception (exn_class: string) (exn_str: string)

text \<open>\<open>repr\<close> of a string of letters\<close>

definition py_quote :: "string \<Rightarrow> string" where
  "py_quote s = [CHR 0x27] @ s @ [CHR 0x27]"

text \<open>
  \<open>repr\<close> of any string over code points below 256: double quotes when the string
  holds a single quote and no double one; the quote, the backslash and what does not
  print are escaped.
\<close>

definition py_printable :: "char \<Rightarrow> bool" where
  "py_printable c =
     (let n = (of_char c :: nat) in (32 \<le> n \<and> n < 127) \<or> (161 \<le> n \<and> n \<noteq> 173))"

definition hex_digit :: "nat \<Rightarrow> char" where
  "hex_digit n = ''0123456789abcdef'' ! n"

definition py_escape :: "char \<Rightarrow> char \<Rightarrow> string" where
  "py_escape q c =
     (if c = q \<or> c = CHR 0x5C then [CHR 0x5C, c]
      else if c = CHR 0x09 then [CHR 0x5C, CHR ''t'']
      else if c = CHR 0x0A then [CHR 0x5C, CHR ''n'']
      else if c = CHR 0x0D then [CHR 0x5C, CHR ''r'']
      else if py_printable c then [c]
      else [CHR 0x5C, CHR ''x'', hex_digit (of_char c div 16), hex_digit (of_char c mod 16)])"

definition py_repr :: "string \<Rightarrow> string" where
  "py_repr s =
     (let q = (if CHR 0x27 \<in> set s \<and> CHR 0x22 \<notin> set s then CHR 0x22 else CHR 0x27)
      in [q] @ concat (map (py_escape q) s) @ [q])"

definition bind :: "exn + 'a \<Rightarrow> ('a \<Rightarrow> exn + 'b) \<Rightarrow> exn + 'b" where
  "bind m f = (case m of Inl e \<Rightarrow> Inl e | Inr x \<Rightarrow> f x)"

text \<open>
  What \<open>json.load\<close> answers and \<open>json.dumps\<close> accepts: an object is the list of its
  items in insertion order (floats do not occur in the documents of the pipeline).
\<close>

datatype json =
    JNull
  | JBool bool
  | JInt int
  | JString string
  | JArray "json list"
  | JObject "(string \<times> json) list"

text \<open>\<open>type(value).__name__\<close>\<close>

definition py_type_name :: "json \<Rightarrow> string" where
  "py_type_name j =
     (case j of
        JNull \<Rightarrow> ''NoneType'' | JBool b \<Rightarrow> ''bool'' | JInt i \<Rightarrow> ''int''
      | JString s \<Rightarrow> ''str'' | JArray xs \<Rightarrow> ''list'' | JObject d \<Rightarrow> ''dict'')"

text \<open>\<open>d.get(k)\<close> and \<open>d.get(k, default)\<close> on the items of a dict\<close>

definition dict_get :: "(string \<times> json) list \<Rightarrow> string \<Rightarrow> json option" where
  "dict_get d k = map_of d k"

definition dict_get_default :: "(string \<times> json) list \<Rightarrow> string \<Rightarrow> json \<Rightarrow> json" where
  "dict_get_default d k dflt = (case map_of d k of Some v \<Rightarrow> v | None \<Rightarrow> dflt)"

text \<open>
  Files: a JSON document (kept as the value that \<open>json.load\<close> reads from it), a text
  that is not one, or audio data. The file system maps the paths of regular files to
  their contents. Directories are not modelled: whether making one raises is for the
  world to say.
\<close>

datatype file_content = JsonFile json | TextFile string | AudioFile

type_synonym filesystem = "Path \<Rightarrow> file_content option"

text \<open>
  The operating system as the sources meet it: whether opening a path for writing
  raises; the exception that opening a path for reading raises when it names no file,
  \<open>FileNotFoundError\<close> when nothing else is in the way; the exception that \<open>json.load\<close>
  raises on a file that holds no JSON document; whether \<open>Path.exists\<close> raises instead
  of answering (a name that is too long, a directory that may not be searched); whether
  \<open>mkdir(parents=True, exist_ok=True)\<close> raises (a regular file in the way, a directory
  that may not be written); and the clock behind \<open>datetime.now().isoformat()\<close>. A file
  that is there can be read.
\<close>

record os_world =
  write_error :: "Path \<Rightarrow> exn option"
  open_error :: "Path \<Rightarrow> exn"
  json_error :: "file_content \<Rightarrow> exn"
  exists_error :: "Path \<Rightarrow> exn option"
  mkdir_error :: "Path \<Rightarrow> exn option"
  now :: string

definition write_file :: "os_world \<Rightarrow> filesystem \<Rightarrow> Path \<Rightarrow> file_content \<Rightarrow> exn + filesystem" where
  "write_file os fs p content =
     (case write_error os p of Some e \<Rightarrow> Inl e | None \<Rightarrow> Inr (fs(p \<mapsto> content)))"

text \<open>\<open>p.parent.mkdir(parents=True, exist_ok=True)\<close> and then a write to \<open>p\<close>\<close>

definition write_in_parent ::
  "os_world \<Rightarrow> filesystem \<Rightarrow> Path \<Rightarrow> file_content \<Rightarrow> exn + filesystem" where
  "write_in_parent os fs p content =
     (case mkdir_error os (path_parent p) of
        Some e \<Rightarrow> Inl e
      | None \<Rightarrow> write_file os fs p content)"

text \<open>\<open>p.exists()\<close>\<close>

definition path_exists :: "os_world \<Rightarrow> filesystem \<Rightarrow> Path \<Rightarrow> exn + bool" where
  "path_exists os fs p =
     (case exists_error os p of Some e \<Rightarrow> Inl e | None \<Rightarrow> Inr (fs p \<noteq> None))"

text \<open>\<open>json.load(open(path))\<close>\<close>

definition read_json :: "os_world \<Rightarrow> filesystem \<Rightarrow> Path \<Rightarrow> exn + json" where
  "read_json os fs p =
     (case fs p of
        None \<Rightarrow> Inl (open_error os p)
      | Some (JsonFile j) \<Rightarrow> Inr j
      | Some content \<Rightarrow> Inl (json_error os content))"


section \<open>Person profiles\<close>

record SocialProfile =
  platform :: string
  url :: string
  username :: "string option"
  verified :: bool

record Facette =
  facette_name :: string
  description :: string
  color :: "string option"
  symbol :: "string option"
  facette_keywords :: "string list"
  facette_sources :: "string list"

record PersonProfile =
  name :: string
  aliases :: "string list"
  professions :: "string list"
  bio :: "string option"
  location :: "string option"
  social_profiles :: "SocialProfile list"
  facettes :: "Facette list"
  profile_keywords :: "string list"
  sources :: "string list"
  raw_info :: "(string \<times> json) list"
  created_at :: string

text \<open>\<open>PersonProfile(name=...)\<close>: every other field at its default.\<close>

definition PersonProfile_init :: "os_world \<Rightarrow> string \<Rightarrow> PersonProfile" where
  "PersonProfile_init os nm =
     \<lparr>name = nm, aliases = [], professions = [], bio = None, location = None,
      social_profiles = [], facettes = [], profile_keywords = [], sources = [], raw_info = [],
      created_at = now os\<rparr>"

subsection \<open>Encoding\<close>

definition json_opt_string :: "string option \<Rightarrow> json" where
  "json_opt_string x = (case x of None \<Rightarrow> JNull | Some s \<Rightarrow> JString s)"

definition json_strings :: "string list \<Rightarrow> json" where
  "json_strings xs = JArray (map JString xs)"

definition social_profile_to_dict :: "SocialProfile \<Rightarrow> json" where
  "social_profile_to_dict sp =
     JObject [(''platform'', JString (platform sp)), (''url'', JString (url sp)),
              (''username'', json_opt_string (username sp))]"

definition facette_to_dict :: "Facette \<Rightarrow> json" where
  "facette_to_dict f =
     JObject [(''name'', JString (facette_name f)),
              (''description'', JString (description f)),
              (''color'', json_opt_string (color f)),
              (''symbol'', json_opt_string (symbol f)),
              (''keywords'', json_strings (facette_keywords f))]"

definition to_dict :: "PersonProfile \<Rightarrow> json" where
  "to_dict p =
     JObject [(''name'', JString (name p)),
              (''aliases'', json_strings (aliases p)),
              (''professions'', json_strings (professions p)),
              (''bio'', json_opt_string (bio p)),
              (''location'', json_opt_string (location p)),
              (''social_profiles'', JArray (map social_profile_to_dict (social_profiles p))),
              (''facettes'', JArray (map facette_to_dict (facettes p))),
              (''keywords'', json_strings (profile_keywords p)),
              (''sources'', json_strings (sources p)),
              (''created_at'', JString (created_at p))]"

text \<open>\<open>save\<close>: the document of \<open>to_json()\<close> written to the path.\<close>

definition PersonProfile_save ::
  "os_world \<Rightarrow> PersonProfile \<Rightarrow> Path \<Rightarrow> filesystem \<Rightarrow> exn + filesystem" where
  "PersonProfile_save os p path fs = write_file os fs path (JsonFile (to_dict p))"

subsection \<open>Decoding\<close>

text \<open>
  The fields of the records have the types the dataclasses declare, and so has every
  document that \<open>save\<close> writes. \<open>load\<close> itself does not check them: it stores whatever
  value the document holds, and a wrong one raises, or not, where it is used later. Such
  a profile is outside the records; the decoders stop at the first field of another type
  than the declared one and answer \<open>Inl\<close> there, which stands for that later raise. The
  raises of \<open>load\<close> itself are those of \<open>py_iter\<close>, \<open>as_dict\<close> and \<open>data["name"]\<close>
  below, with the texts of CPython 3.11.
\<close>

definition ill_typed :: "string \<Rightarrow> exn" where
  "ill_typed what = Exception ''TypeError'' (''not a '' @ what)"

definition as_string :: "json \<Rightarrow> exn + string" where
  "as_string j = (case j of JString s \<Rightarrow> Inr s | _ \<Rightarrow> Inl (ill_typed ''str''))"

definition as_opt_string :: "json \<Rightarrow> exn + string option" where
  "as_opt_string j =
     (case j of JNull \<Rightarrow> Inr None | JString s \<Rightarrow> Inr (Some s)
      | _ \<Rightarrow> Inl (ill_typed ''str or None''))"

text \<open>A loop that builds a list and stops at the first raise.\<close>

fun traverse :: "('a \<Rightarrow> exn + 'b) \<Rightarrow> 'a list \<Rightarrow> exn + 'b list" where
  "traverse f [] = Inr []"
| "traverse f (x # xs) = bind (f x) (\<lambda>y. bind (traverse f xs) (\<lambda>ys. Inr (y # ys)))"

definition as_string_list :: "json \<Rightarrow> exn + string list" where
  "as_string_list j =
     (case j of JArray xs \<Rightarrow> traverse as_string xs | _ \<Rightarrow> Inl (ill_typed ''list of str''))"

text \<open>
  \<open>for x in value\<close>: a list gives its elements, a dict its keys, a string its
  characters; nothing else is iterable.
\<close>

definition py_iter :: "json \<Rightarrow> exn + json list" where
  "py_iter j =
     (case j of
        JArray xs \<Rightarrow> Inr xs
      | JObject d \<Rightarrow> Inr (map (\<lambda>kv. JString (fst kv)) d)
      | JString s \<Rightarrow> Inr (map (\<lambda>c. JString [c]) s)
      | _ \<Rightarrow> Inl (Exception ''TypeError''
                 (py_quote (py_type_name j) @ '' object is not iterable'')))"

text \<open>The receiver of \<open>.get\<close> has to be a dict.\<close>

definition as_dict :: "json \<Rightarrow> exn + (string \<times> json) list" where
  "as_dict j =
     (case j of JObject d \<Rightarrow> Inr d
      | _ \<Rightarrow> Inl (Exception ''AttributeError''
                 (py_quote (py_type_name j) @ '' object has no attribute '' @ py_quote ''get'')))"

text \<open>What \<open>data["name"]\<close> raises when \<open>data\<close> is no dict.\<close>

definition not_subscriptable :: "json \<Rightarrow> exn" where
  "not_subscriptable data =
     (case data of
        JArray xs \<Rightarrow>
          Exception ''TypeError'' ''list indices must be integers or slices, not str''
      | JString s \<Rightarrow>
          Exception ''TypeError'' (''string indices must be integers, not '' @ py_quote ''str'')
      | _ \<Rightarrow>
          Exception ''TypeError'' (py_quote (py_type_name data) @ '' object is not subscriptable''))"

definition social_profile_from_json :: "json \<Rightarrow> exn + SocialProfile" where
  "social_profile_from_json j =
     bind (as_dict j) (\<lambda>sp.
     bind (as_string (dict_get_default sp ''platform'' (JString ''unknown''))) (\<lambda>pl.
     bind (as_string (dict_get_default sp ''url'' (JString ''''))) (\<lambda>u.
     bind (as_opt_string (dict_get_default sp ''username''
             (dict_get_default sp ''handle'' JNull))) (\<lambda>un.
     Inr \<lparr>platform = pl, url = u, username = un, verified = False\<rparr>))))"

definition facette_from_json :: "json \<Rightarrow> exn + Facette" where
  "facette_from_json j =
     bind (as_dict j) (\<lambda>f.
     bind (as_string (dict_get_default f ''name'' (JString ''''))) (\<lambda>n.
     bind (as_string (dict_get_default f ''description'' (JString ''''))) (\<lambda>d.
     bind (as_opt_string (dict_get_default f ''color'' JNull)) (\<lambda>c.
     bind (as_opt_string (dict_get_default f ''symbol''
             (dict_get_default f ''element'' JNull))) (\<lambda>s.
     bind (as_string_list (dict_get_default f ''keywords'' (JArray []))) (\<lambda>kw.
     Inr \<lparr>facette_name = n, description = d, color = c, symbol = s,
          facette_keywords = kw, facette_sources = []\<rparr>))))))"

definition known_keys :: "string list" where
  "known_keys =
     [''name'', ''aliases'', ''professions'', ''occupations'', ''bio'', ''biography'',
      ''location'', ''social_profiles'', ''facettes'', ''keywords'', ''sources'',
      ''created_at'', ''personality_traits'']"

text \<open>
  The body of \<open>load\<close> after \<open>json.load\<close>: \<open>data["name"]\<close> needs a dict with that key;
  every other field has a default, \<open>professions\<close>, \<open>bio\<close> and \<open>keywords\<close> also an
  alternate key.
\<close>

definition PersonProfile_from_json :: "os_world \<Rightarrow> json \<Rightarrow> exn + PersonProfile" where
  "PersonProfile_from_json os data =
     (case data of
        JObject d \<Rightarrow>
          (case dict_get d ''name'' of
             None \<Rightarrow> Inl (Exception ''KeyError'' (py_quote ''name''))
           | Some nm \<Rightarrow>
               bind (as_string nm) (\<lambda>n.
               bind (as_string_list (dict_get_default d ''aliases'' (JArray []))) (\<lambda>al.
               bind (as_string_list (dict_get_default d ''professions''
                       (dict_get_default d ''occupations'' (JArray [])))) (\<lambda>pr.
               bind (as_opt_string (dict_get_default d ''bio''
                       (dict_get_default d ''biography'' JNull))) (\<lambda>b.
               bind (as_opt_string (dict_get_default d ''location'' JNull)) (\<lambda>loc.
               bind (as_string_list (dict_get_default d ''keywords''
                       (dict_get_default d ''personality_traits'' (JArray [])))) (\<lambda>kw.
               bind (as_string_list (dict_get_default d ''sources'' (JArray []))) (\<lambda>src.
               bind (as_string (dict_get_default d ''created_at'' (JString (now os)))) (\<lambda>cr.
               bind (py_iter (dict_get_default d ''social_profiles'' (JArray []))) (\<lambda>sps.
               bind (traverse social_profile_from_json sps) (\<lambda>sp.
               bind (py_iter (dict_get_default d ''facettes'' (JArray []))) (\<lambda>fs.
               bind (traverse facette_from_json fs) (\<lambda>fa.
               Inr \<lparr>name = n, aliases = al, professions = pr, bio = b, location = loc,
                    social_profiles = sp, facettes = fa, profile_keywords = kw, sources = src,
                    raw_info = filter (\<lambda>kv. fst kv \<notin> set known_keys) d,
                    created_at = cr\<rparr>)))))))))))))
      | _ \<Rightarrow> Inl (not_subscriptable data))"

definition PersonProfile_load :: "os_world \<Rightarrow> filesystem \<Rightarrow> Path \<Rightarrow> exn + PersonProfile" where
  "PersonProfile_load os fs path = bind (read_json os fs path) (PersonProfile_from_json os)"

text \<open>
  A document in the alternate field names: \<open>occupations\<close> for \<open>professions\<close> and
  \<open>biography\<close> for \<open>bio\<close>.
\<close>

definition alternate_key :: "string \<Rightarrow> string" where
  "alternate_key k =
     (if k = ''professions'' then ''occupations''
      else if k = ''bio'' then ''biography'' else k)"

definition with_alternate_names :: "json \<Rightarrow> json" where
  "with_alternate_names j =
     (case j of JObject d \<Rightarrow> JObject (map (\<lambda>kv. (alternate_key (fst kv), snd kv)) d)
      | _ \<Rightarrow> j)"

text \<open>A profile with one facette that names a source, a clock and a path to try things on.\<close>

definition demo_os :: os_world where
  "demo_os =
     \<lparr>write_error = (\<lambda>p. None),
      open_error = (\<lambda>p. Exception ''FileNotFoundError''
        (''[Errno 2] No such file or directory: '' @ py_repr (path_str p))),
      json_error = (\<lambda>content. Exception ''JSONDecodeError''
        ''Expecting value: line 1 column 1 (char 0)''),
      exists_error = (\<lambda>p. None),
      mkdir_error = (\<lambda>p. None),
      now = ''2024-01-01T00:00:00''\<rparr>"

definition demo_facette :: Facette where
  "demo_facette =
     \<lparr>facette_name = ''Artist'', description = ''Paints'', color = Some ''red'',
      symbol = None, facette_keywords = [''art''], facette_sources = [''https://a.example'']\<rparr>"

definition demo_profile :: PersonProfile where
  "demo_profile =
     \<lparr>name = ''John Doe'', aliases = [''JD''], professions = [''painter''],
      bio = Some ''A painter.'', location = None, social_profiles = [],
      facettes = [demo_facette], profile_keywords = [''paint''], sources = [],
      raw_info = [], created_at = ''2023-12-31T00:00:00''\<rparr>"

definition demo_profile_path :: Path where
  "demo_profile_path = \<lparr>root = [], parts = [''profile.json'']\<rparr>"


section \<open>Research: search and profile extraction\<close>

text \<open>The score of a result, a float that nothing here reads, is left out.\<close>

record SearchResult =
  title :: string
  result_url :: string
  content :: string
  published_date :: "string option"

record PersonSearchResults =
  searched_name :: string
  query :: string
  timestamp :: string
  results :: "SearchResult list"

definition urls :: "PersonSearchResults \<Rightarrow> string list" where
  "urls r = map result_url (results r)"

text \<open>
  What the research phase takes from outside: the operating system; whether
  \<open>PersonSearcher(...)\<close> can be built (the client library and the API key); the search
  client, answering the parsed result items or raising; and the \<open>re\<close> library,
  \<open>re.search\<close> with \<open>IGNORECASE\<close> answering the groups of the first match and
  \<open>re.findall\<close> the matches.
\<close>

record research_world =
  system :: os_world
  searcher_init :: "exn option"
  client_search :: "string \<Rightarrow> exn + SearchResult list"
  re_search :: "string \<Rightarrow> string \<Rightarrow> string list option"
  re_findall :: "string \<Rightarrow> string \<Rightarrow> string list"

text \<open>Python's truth value of an optional string: \<open>None\<close> and \<open>""\<close> are false.\<close>

definition truthy :: "string option \<Rightarrow> bool" where
  "truthy x = (case x of None \<Rightarrow> False | Some s \<Rightarrow> s \<noteq> [])"

definition PersonSearcher_search ::
  "research_world \<Rightarrow> string \<Rightarrow> string option \<Rightarrow> exn + PersonSearchResults" where
  "PersonSearcher_search w nm context =
     (let query = (case context of
                     Some c \<Rightarrow> (if c \<noteq> [] then nm @ '' '' @ c else nm)
                   | None \<Rightarrow> nm)
      in bind (client_search w query) (\<lambda>items.
           Inr \<lparr>searched_name = nm, query = query, timestamp = now (system w),
                results = items\<rparr>))"

definition BS :: string where
  "BS = [CHR 0x5C]"

definition PLATFORM_PATTERNS :: "(string \<times> string) list" where
  "PLATFORM_PATTERNS =
     [(''instagram'', ''instagram'' @ BS @ ''.com/([a-zA-Z0-9_.]+)''),
      (''linkedin'', ''linkedin'' @ BS @ ''.com/in/([a-zA-Z0-9_-]+)''),
      (''youtube'', ''youtube'' @ BS @ ''.com/(?:@|channel/|c/)([a-zA-Z0-9_-]+)''),
      (''twitter'', ''(?:twitter|x)'' @ BS @ ''.com/([a-zA-Z0-9_]+)''),
      (''tiktok'', ''tiktok'' @ BS @ ''.com/@([a-zA-Z0-9_.]+)''),
      (''facebook'', ''facebook'' @ BS @ ''.com/([a-zA-Z0-9.]+)'')]"

fun first_platform ::
  "research_world \<Rightarrow> SearchResult \<Rightarrow> (string \<times> string) list \<Rightarrow> SocialProfile option" where
  "first_platform w r [] = None"
| "first_platform w r ((pf, pattern) # rest) =
     (case re_search w pattern (result_url r) of
        Some groups \<Rightarrow>
          Some \<lparr>platform = pf, url = result_url r,
                username = (case groups of [] \<Rightarrow> None | g # _ \<Rightarrow> Some g),
                verified = False\<rparr>
      | None \<Rightarrow> first_platform w r rest)"

definition extract_social_profile :: "research_world \<Rightarrow> SearchResult \<Rightarrow> SocialProfile option" where
  "extract_social_profile w r = first_platform w r PLATFORM_PATTERNS"

text \<open>\<open>s.split()\<close>: the maximal runs of characters that are not whitespace.\<close>

fun split_ws :: "string \<Rightarrow> string \<Rightarrow> string list" where
  "split_ws cur [] = (if cur = [] then [] else [cur])"
| "split_ws cur (c # cs) =
     (if py_isspace c then (if cur = [] then split_ws [] cs else cur # split_ws [] cs)
      else split_ws (cur @ [c]) cs)"

definition py_split :: "string \<Rightarrow> string list" where
  "py_split s = split_ws [] s"

definition stopwords :: "string list" where
  "stopwords =
     [''the'', ''a'', ''an'', ''and'', ''or'', ''but'', ''in'', ''on'', ''at'', ''to'', ''for'',
      ''of'', ''with'', ''by'', ''from'', ''is'', ''are'', ''was'', ''were'', ''be'', ''been'',
      ''being'', ''have'', ''has'', ''had'', ''do'', ''does'', ''did'', ''will'', ''would'',
      ''could'', ''should'', ''may'', ''might'', ''must'', ''shall'', ''can'', ''this'',
      ''that'', ''these'', ''those'', ''it'', ''its'', ''they'', ''them'', ''their'', ''he'',
      ''him'', ''his'', ''she'', ''her'', ''hers'', ''we'', ''us'', ''our'', ''you'', ''your'',
      ''qui'', ''que'', ''est'', ''et'', ''le'', ''la'', ''les'', ''un'', ''une'', ''des'',
      ''de'', ''du'', ''en'', ''dans'', ''sur'', ''pour'', ''par'', ''avec'', ''son'', ''sa'']"

text \<open>\<open>word_counts[word] = word_counts.get(word, 0) + 1\<close> on a dict in insertion order\<close>

definition bump :: "(string \<times> nat) list \<Rightarrow> string \<Rightarrow> (string \<times> nat) list" where
  "bump counts word =
     (if word \<in> fst ` set counts
      then map (\<lambda>kv. if fst kv = word then (fst kv, snd kv + 1) else kv) counts
      else counts @ [(word, 1)])"

fun count_words ::
  "string list \<Rightarrow> (string \<times> nat) list \<Rightarrow> string list \<Rightarrow> (string \<times> nat) list" where
  "count_words name_parts counts [] = counts"
| "count_words name_parts counts (word # rest) =
     (if word \<notin> set stopwords \<and> word \<notin> set name_parts
      then count_words name_parts (bump counts word) rest
      else count_words name_parts counts rest)"

text \<open>
  \<open>sorted(..., key=count, reverse=True)\<close> is stable, as \<open>sort_key\<close> is: words of equal
  count stay in the order of their first occurrence.
\<close>

definition extract_keywords :: "research_world \<Rightarrow> string \<Rightarrow> string \<Rightarrow> int \<Rightarrow> string list" where
  "extract_keywords w text nm max_keywords =
     (let name_parts = py_split (py_lower nm);
          words = re_findall w (BS @ ''b[a-zA-Z'' @ BS @ ''u00C0-'' @ BS @ ''u017F]{4,}'' @ BS @ ''b'')
                    (py_lower text);
          word_counts = count_words name_parts [] words;
          sorted_words = sort_key (\<lambda>kv. - int (snd kv)) word_counts
      in map fst (py_slice_to sorted_words max_keywords))"

text \<open>The loop over the results that keeps the first profile of every platform.\<close>

fun collect_social ::
  "research_world \<Rightarrow> SocialProfile list \<Rightarrow> SearchResult list \<Rightarrow> SocialProfile list" where
  "collect_social w acc [] = acc"
| "collect_social w acc (r # rest) =
     (case extract_social_profile w r of
        Some social \<Rightarrow>
          (if platform social \<notin> set (map platform acc)
           then collect_social w (acc @ [social]) rest
           else collect_social w acc rest)
      | None \<Rightarrow> collect_social w acc rest)"

definition extract_profile :: "research_world \<Rightarrow> PersonSearchResults \<Rightarrow> PersonProfile" where
  "extract_profile w search_results =
     (let profile = PersonProfile_init (system w) (searched_name search_results);
          all_content = py_join '' '' (map content (results search_results))
      in profile
          \<lparr>sources := urls search_results,
           social_profiles := collect_social w [] (results search_results),
           profile_keywords :=
             extract_keywords w all_content (searched_name search_results) 20,
           raw_info :=
             [(''search_query'', JString (query search_results)),
              (''search_timestamp'', JString (timestamp search_results)),
              (''result_count'', JInt (int (length (results search_results)))),
              (''contents'', JArray (map (\<lambda>r.
                   JObject [(''title'', JString (title r)), (''url'', JString (result_url r)),
                            (''content'', JString (content r))])
                 (results search_results)))]\<rparr>)"


section \<open>Persona prompts\<close>

record PersonaPrompt =
  persona_name :: string
  system_prompt :: string
  personality_traits :: "string list"
  speaking_style :: "string option"
  knowledge_domains :: "string list"
  example_phrases :: "string list"
  persona_facettes :: "Facette list"
  metadata :: "(string \<times> json) list"

definition PersonaPrompt_to_json :: "PersonaPrompt \<Rightarrow> json" where
  "PersonaPrompt_to_json p =
     JObject [(''name'', JString (persona_name p)),
              (''system_prompt'', JString (system_prompt p)),
              (''personality_traits'', json_strings (personality_traits p)),
              (''speaking_style'', json_opt_string (speaking_style p)),
              (''knowledge_domains'', json_strings (knowledge_domains p)),
              (''example_phrases'', json_strings (example_phrases p)),
              (''facettes'', JArray (map facette_to_dict (persona_facettes p))),
              (''metadata'', JObject (metadata p))]"

definition PersonaPrompt_save ::
  "os_world \<Rightarrow> PersonaPrompt \<Rightarrow> Path \<Rightarrow> filesystem \<Rightarrow> exn + filesystem" where
  "PersonaPrompt_save os p path fs =
     write_in_parent os fs path (JsonFile (PersonaPrompt_to_json p))"

text \<open>\<open>DEFAULT_TEMPLATE.format(...)\<close>\<close>

definition DEFAULT_TEMPLATE_format ::
  "string \<Rightarrow> string \<Rightarrow> string \<Rightarrow> string \<Rightarrow> string \<Rightarrow> string \<Rightarrow> string \<Rightarrow> string" where
  "DEFAULT_TEMPLATE_format nm bio_text personality_section style knowledge_section
       facettes_section additional_instructions =
     ''Tu es '' @ nm @ '', une vraie personne avec une personnalite unique.'' @ NL @
     NL @
     ''## Identite'' @ NL @
     bio_text @ NL @
     NL @
     ''## Traits de personnalite'' @ NL @
     personality_section @ NL @
     NL @
     ''## Style de communication'' @ NL @
     style @ NL @
     NL @
     ''## Domaines d'expertise'' @ NL @
     knowledge_section @ NL @
     NL @
     ''## Facettes de ta personnalite'' @ NL @
     facettes_section @ NL @
     NL @
     ''## Instructions'' @ NL @
     ''- Reponds toujours comme si tu etais vraiment '' @ nm @ NL @
     ''- Utilise ton style de communication naturel'' @ NL @
     ''- Puise dans tes domaines d'expertise pour enrichir tes reponses'' @ NL @
     ''- Exprime ta personnalite a travers tes differentes facettes'' @ NL @
     ''- Sois authentique et coherent avec ton identite'' @ NL @
     NL @
     additional_instructions @ NL"

text \<open>The loop that writes the lines of the facettes section.\<close>

fun facettes_lines :: "string list \<Rightarrow> Facette list \<Rightarrow> string list" where
  "facettes_lines acc [] = acc"
| "facettes_lines acc (f # rest) =
     (let line = ''### '' @ facette_name f;
          line = (case color f of
                    Some c \<Rightarrow> (if c \<noteq> [] then line @ '' ('' @ c @ '')'' else line)
                  | None \<Rightarrow> line);
          acc = acc @ [line, description f];
          acc = (if facette_keywords f \<noteq> []
                 then acc @ [''Mots-cles: '' @ py_join '', '' (facette_keywords f)] else acc)
      in facettes_lines (acc @ ['''']) rest)"

text \<open>
  \<open>PromptGenerator().generate(profile, ...)\<close> of a generator without a templates
  directory, which renders the default template.
\<close>

definition PromptGenerator_generate ::
  "PersonProfile \<Rightarrow> string \<Rightarrow> string option \<Rightarrow> PersonaPrompt" where
  "PromptGenerator_generate profile additional_instructions style_arg =
     (let traits = (if profile_keywords profile \<noteq> [] then take 10 (profile_keywords profile)
                    else [''authentique'', ''passionne'', ''expressif'']);
          personality_section = py_join NL (map (\<lambda>t. ''- '' @ t) traits);
          domains = (if professions profile \<noteq> [] then professions profile
                     else [''son domaine d'expertise'']);
          knowledge_section = py_join NL (map (\<lambda>d. ''- '' @ d) domains);
          facettes_section =
            (if facettes profile \<noteq> [] then py_join NL (facettes_lines [] (facettes profile))
             else ''Personnalite riche et multifacette.'');
          style = (case style_arg of
                     None \<Rightarrow> ''Naturel, expressif, avec une touche de creativite.''
                   | Some s \<Rightarrow> s);
          bio_text = (case bio profile of
                        Some b \<Rightarrow>
                          (if b \<noteq> [] then b
                           else name profile @
                             '' est une personne unique avec de nombreuses facettes.'')
                      | None \<Rightarrow>
                          name profile @
                            '' est une personne unique avec de nombreuses facettes.'')
      in \<lparr>persona_name = name profile,
          system_prompt =
            DEFAULT_TEMPLATE_format (name profile) bio_text personality_section style
              knowledge_section facettes_section additional_instructions,
          personality_traits = traits,
          speaking_style = Some style,
          knowledge_domains = domains,
          example_phrases = [],
          persona_facettes = facettes profile,
          metadata = [(''sources'', json_strings (sources profile)),
                      (''created_from'', JString ''PersonProfile'')]\<rparr>)"


section \<open>The pipeline orchestrator\<close>

subsection \<open>Collaborators\<close>

text \<open>
  The wrapped tools as the orchestrator meets them. The \<open>yt-dlp\<close> subprocess raises,
  exits with an error text, or ends well, and then \<open>_find_output_file\<close> finds a file of
  that name in the output directory or none. The source-separation model raises some
  exception, reported with its traceback, or writes the vocals. Jinja2 may be missing
  when the document generator is built, and rendering a template may raise; the
  template files under \<open>docs/templates\<close> are left out of the file system.

  The phases import their modules inside their \<open>try\<close> blocks. The imports of the research
  and documentation phases are guarded and do not raise. Importing from the audio package
  runs its \<open>__init__\<close>, which loads the separator and with it \<open>torch\<close> and \<open>soundfile\<close>:
  that raise is the first thing \<open>downloader_init\<close> stands for, and \<open>separator_init\<close>
  when the audio is a local file. Importing \<open>PromptGenerator\<close> in the persona phase runs
  the \<open>__init__\<close> of the avatar package, which loads the avatar engine, the voice cloner
  and with it \<open>torch\<close>: \<open>avatar_import\<close> is the exception this raises, if any.
\<close>

datatype yt_outcome = YtRaised exn | YtExit string | YtDone "string option"

datatype demucs_outcome = DemucsRaised exn string | DemucsDone

record pipeline_world =
  research :: research_world
  downloader_init :: "exn option"
  yt_dlp :: "string \<Rightarrow> Path \<Rightarrow> yt_outcome"
  separator_init :: "exn option"
  demucs :: "Path \<Rightarrow> demucs_outcome"
  generator_init :: "exn option"
  render_profile :: "PersonProfile \<Rightarrow> exn + string"
  render_facettes :: "string \<Rightarrow> Facette list \<Rightarrow> exn + string"
  avatar_import :: "exn option"

text \<open>The title and the duration of a download, which the pipeline never reads, are left out.\<close>

record DownloadResult =
  download_success :: bool
  source_url :: string
  download_output_path :: "Path option"
  download_error :: "string option"

text \<open>An entry of a directory\<close>

definition path_child :: "Path \<Rightarrow> string \<Rightarrow> Path" where
  "path_child p entry = p\<lparr>parts := parts p @ [entry]\<rparr>"

definition AudioDownloader_download ::
  "pipeline_world \<Rightarrow> Path \<Rightarrow> string \<Rightarrow> filesystem \<Rightarrow> DownloadResult \<times> filesystem" where
  "AudioDownloader_download w output_dir u fs =
     (case yt_dlp w u output_dir of
        YtRaised e \<Rightarrow>
          (\<lparr>download_success = False, source_url = u, download_output_path = None,
            download_error = Some (exn_str e)\<rparr>, fs)
      | YtExit stderr \<Rightarrow>
          (\<lparr>download_success = False, source_url = u, download_output_path = None,
            download_error = Some stderr\<rparr>, fs)
      | YtDone None \<Rightarrow>
          (\<lparr>download_success = False, source_url = u, download_output_path = None,
            download_error = Some ''Output file not found after download''\<rparr>, fs)
      | YtDone (Some entry) \<Rightarrow>
          (\<lparr>download_success = True, source_url = u,
            download_output_path = Some (path_child output_dir entry),
            download_error = None\<rparr>,
           fs(path_child output_dir entry \<mapsto> AudioFile)))"

record SeparationResult =
  separation_success :: bool
  input_path :: Path
  separated_vocals_path :: "Path option"
  accompaniment_path :: "Path option"
  separation_error :: "string option"

text \<open>
  \<open>separate\<close> looks for the input before its \<open>try\<close>: an exception of that
  \<open>exists\<close> leaves \<open>separate\<close>; one of the separation becomes a result that failed.
\<close>

definition VocalSeparator_separate ::
  "pipeline_world \<Rightarrow> Path \<Rightarrow> Path \<Rightarrow> string \<Rightarrow> filesystem
     \<Rightarrow> (exn + SeparationResult) \<times> filesystem" where
  "VocalSeparator_separate w output_dir inp output_name fs =
     (case path_exists (system (research w)) fs inp of
        Inl e \<Rightarrow> (Inl e, fs)
      | Inr False \<Rightarrow>
          (Inr \<lparr>separation_success = False, input_path = inp, separated_vocals_path = None,
                accompaniment_path = None,
                separation_error = Some (''Input file not found: '' @ path_str inp)\<rparr>, fs)
      | Inr True \<Rightarrow>
          (case demucs w inp of
             DemucsRaised e traceback \<Rightarrow>
               (Inr \<lparr>separation_success = False, input_path = inp,
                     separated_vocals_path = None, accompaniment_path = None,
                     separation_error = Some (exn_str e @ NL @ traceback)\<rparr>, fs)
           | DemucsDone \<Rightarrow>
               (let vocals = joinpath output_dir (output_name @ ''_vocals.wav'')
                in (Inr \<lparr>separation_success = True, input_path = inp,
                         separated_vocals_path = Some vocals, accompaniment_path = None,
                         separation_error = None\<rparr>,
                    fs(vocals \<mapsto> AudioFile)))))"

definition generate_profile ::
  "pipeline_world \<Rightarrow> PersonProfile \<Rightarrow> Path \<Rightarrow> filesystem \<Rightarrow> exn + filesystem" where
  "generate_profile w profile output_path fs =
     bind (render_profile w profile) (\<lambda>rendered.
       write_in_parent (system (research w)) fs output_path (TextFile rendered))"

definition generate_facettes ::
  "pipeline_world \<Rightarrow> string \<Rightarrow> Facette list \<Rightarrow> Path \<Rightarrow> filesystem \<Rightarrow> exn + filesystem" where
  "generate_facettes w nm fa output_path fs =
     bind (render_facettes w nm fa) (\<lambda>rendered.
       write_in_parent (system (research w)) fs output_path (TextFile rendered))"

subsection \<open>State\<close>

record PipelineResult =
  success :: bool
  result_subject_name :: string
  result_subject_dir :: Path
  profile_path :: "Path option"
  persona_path :: "Path option"
  vocals_path :: "Path option"
  error :: "string option"
  steps_completed :: "string list"

datatype phase = Research | Audio | Documentation | Persona

text \<open>
  Of what the orchestrator prints, the banner at the entry of a phase method and the
  line of its exception handler.
\<close>

datatype event = PhaseBanner phase | PhaseFailed phase exn

text \<open>
  A \<open>HumanPipeline\<close> object (\<open>config\<close>, \<open>subject_dir\<close>, \<open>result\<close>) together with the
  file system and the console it acts on.
\<close>

record pipeline_state =
  config :: PipelineConfig
  subject_dir :: Path
  result :: PipelineResult
  files :: filesystem
  console :: "event list"

text \<open>
  The constructor, when the subject directory and its four subdirectories can be made;
  a raise of \<open>mkdir\<close> there leaves no pipeline to run.
\<close>

definition HumanPipeline_init :: "PipelineConfig \<Rightarrow> filesystem \<Rightarrow> pipeline_state" where
  "HumanPipeline_init c fs =
     \<lparr>config = c, subject_dir = get_subject_dir c,
      result = \<lparr>success = False, result_subject_name = subject_name c,
                result_subject_dir = get_subject_dir c, profile_path = None,
                persona_path = None, vocals_path = None, error = None,
                steps_completed = []\<rparr>,
      files = fs, console = []\<rparr>"

definition banner :: "phase \<Rightarrow> pipeline_state \<Rightarrow> pipeline_state" where
  "banner ph s = s\<lparr>console := console s @ [PhaseBanner ph]\<rparr>"

definition step_done :: "string \<Rightarrow> pipeline_state \<Rightarrow> pipeline_state" where
  "step_done step s =
     s\<lparr>result := (result s)\<lparr>steps_completed := steps_completed (result s) @ [step]\<rparr>\<rparr>"

text \<open>
  The \<open>try\<close> block of a phase answers the state it reached and the exception that left
  it, if any; the handler prints it, records \<open>str(e)\<close> as the error and answers False.
\<close>

definition handled :: "phase \<Rightarrow> pipeline_state \<times> exn option \<Rightarrow> bool \<times> pipeline_state" where
  "handled ph r =
     (case snd r of
        None \<Rightarrow> (True, fst r)
      | Some e \<Rightarrow>
          (False, (fst r)\<lparr>console := console (fst r) @ [PhaseFailed ph e],
                          result := (result (fst r))\<lparr>error := Some (exn_str e)\<rparr>\<rparr>))"

definition profile_json :: "pipeline_state \<Rightarrow> Path" where
  "profile_json s = joinpath (joinpath (subject_dir s) ''research'') ''profile.json''"

subsection \<open>Phase 1: research\<close>

definition research_try :: "pipeline_world \<Rightarrow> pipeline_state \<Rightarrow> pipeline_state \<times> exn option" where
  "research_try w s =
     (case searcher_init (research w) of
        Some e \<Rightarrow> (s, Some e)
      | None \<Rightarrow>
          (case PersonSearcher_search (research w) (subject_name (config s))
                  (subject_context (config s)) of
             Inl e \<Rightarrow> (s, Some e)
           | Inr found \<Rightarrow>
               (let profile = extract_profile (research w) found
                in case PersonProfile_save (system (research w)) profile (profile_json s)
                          (files s) of
                     Inl e \<Rightarrow> (s, Some e)
                   | Inr fs' \<Rightarrow>
                       (step_done ''research''
                          (s\<lparr>files := fs',
                             result := (result s)\<lparr>profile_path := Some (profile_json s)\<rparr>\<rparr>),
                        None))))"

definition run_research :: "pipeline_world \<Rightarrow> pipeline_state \<Rightarrow> bool \<times> pipeline_state" where
  "run_research w s = handled Research (research_try w (banner Research s))"

subsection \<open>Phase 2: audio\<close>

text \<open>\<open>f"{x}"\<close> of an optional string\<close>

definition str_opt :: "string option \<Rightarrow> string" where
  "str_opt x = (case x of None \<Rightarrow> ''None'' | Some s \<Rightarrow> s)"

text \<open>
  The first half of the \<open>try\<close> block: the path of the audio to separate, none without a
  source, or the exception raised on the way.
\<close>

definition acquire_file ::
  "pipeline_world \<Rightarrow> pipeline_state \<Rightarrow> (exn + Path option) \<times> filesystem" where
  "acquire_file w s =
     (case audio_file (config s) of
        None \<Rightarrow> (Inr None, files s)
      | Some f \<Rightarrow>
          (if f = [] then (Inr None, files s)
           else
             (case path_exists (system (research w)) (files s) (parse_path f) of
                Inl e \<Rightarrow> (Inl e, files s)
              | Inr False \<Rightarrow>
                  (Inl (Exception ''FileNotFoundError''
                         (''Audio file not found: '' @ path_str (parse_path f))), files s)
              | Inr True \<Rightarrow> (Inr (Some (parse_path f)), files s))))"

definition acquire_download ::
  "pipeline_world \<Rightarrow> pipeline_state \<Rightarrow> string \<Rightarrow> (exn + Path option) \<times> filesystem" where
  "acquire_download w s u =
     (case downloader_init w of
        Some e \<Rightarrow> (Inl e, files s)
      | None \<Rightarrow>
          (let r = AudioDownloader_download w (joinpath (subject_dir s) ''audio'') u (files s)
           in if \<not> download_success (fst r)
              then (Inl (Exception ''Exception''
                          (''Download failed: '' @ str_opt (download_error (fst r)))), snd r)
              else (Inr (download_output_path (fst r)), snd r)))"

definition acquire_audio ::
  "pipeline_world \<Rightarrow> pipeline_state \<Rightarrow> (exn + Path option) \<times> filesystem" where
  "acquire_audio w s =
     (case audio_url (config s) of
        None \<Rightarrow> acquire_file w s
      | Some u \<Rightarrow> (if u = [] then acquire_file w s else acquire_download w s u))"

definition audio_try :: "pipeline_world \<Rightarrow> pipeline_state \<Rightarrow> pipeline_state \<times> exn option" where
  "audio_try w s =
     (case acquire_audio w s of
        (Inl e, fs1) \<Rightarrow> (s\<lparr>files := fs1\<rparr>, Some e)
      | (Inr None, fs1) \<Rightarrow> (s\<lparr>files := fs1\<rparr>, None)
      | (Inr (Some audio_path), fs1) \<Rightarrow>
          (case separator_init w of
             Some e \<Rightarrow> (s\<lparr>files := fs1\<rparr>, Some e)
           | None \<Rightarrow>
               (case VocalSeparator_separate w (joinpath (subject_dir s) ''audio'')
                       audio_path ''separated'' fs1 of
                  (Inl e, fs2) \<Rightarrow> (s\<lparr>files := fs2\<rparr>, Some e)
                | (Inr r, fs2) \<Rightarrow>
                    (if \<not> separation_success r
                     then (s\<lparr>files := fs2\<rparr>,
                           Some (Exception ''Exception''
                             (''Separation failed: '' @ str_opt (separation_error r))))
                     else (step_done ''audio''
                             (s\<lparr>files := fs2,
                                result := (result s)
                                  \<lparr>vocals_path := separated_vocals_path r\<rparr>\<rparr>),
                           None)))))"

definition run_audio :: "pipeline_world \<Rightarrow> pipeline_state \<Rightarrow> bool \<times> pipeline_state" where
  "run_audio w s = handled Audio (audio_try w (banner Audio s))"

subsection \<open>Phase 3: documentation\<close>

definition documentation_try ::
  "pipeline_world \<Rightarrow> pipeline_state \<Rightarrow> pipeline_state \<times> exn option" where
  "documentation_try w s =
     (case path_exists (system (research w)) (files s) (profile_json s) of
        Inl e \<Rightarrow> (s, Some e)
      | Inr False \<Rightarrow> (s, None)
      | Inr True \<Rightarrow>
        (case PersonProfile_load (system (research w)) (files s) (profile_json s) of
           Inl e \<Rightarrow> (s, Some e)
         | Inr profile \<Rightarrow>
             (case generator_init w of
                Some e \<Rightarrow> (s, Some e)
              | None \<Rightarrow>
                  (case generate_profile w profile
                          (joinpath (joinpath (subject_dir s) ''docs'') ''profile.md'')
                          (files s) of
                     Inl e \<Rightarrow> (s, Some e)
                   | Inr fs1 \<Rightarrow>
                       (if facettes profile \<noteq> []
                        then (case generate_facettes w (name profile) (facettes profile)
                                     (joinpath (joinpath (subject_dir s) ''docs'')
                                        ''facettes.md'') fs1 of
                                Inl e \<Rightarrow> (s\<lparr>files := fs1\<rparr>, Some e)
                              | Inr fs2 \<Rightarrow>
                                  (step_done ''documentation'' (s\<lparr>files := fs2\<rparr>), None))
                        else (step_done ''documentation'' (s\<lparr>files := fs1\<rparr>), None))))))"

definition run_documentation :: "pipeline_world \<Rightarrow> pipeline_state \<Rightarrow> bool \<times> pipeline_state" where
  "run_documentation w s = handled Documentation (documentation_try w (banner Documentation s))"

subsection \<open>Phase 4: persona\<close>

text \<open>The import comes first in the \<open>try\<close> block, before the profile is looked for.\<close>

definition persona_try :: "pipeline_world \<Rightarrow> pipeline_state \<Rightarrow> pipeline_state \<times> exn option" where
  "persona_try w s =
     (case avatar_import w of
        Some e \<Rightarrow> (s, Some e)
      | None \<Rightarrow>
          (case path_exists (system (research w)) (files s) (profile_json s) of
             Inl e \<Rightarrow> (s, Some e)
           | Inr False \<Rightarrow> (s, None)
           | Inr True \<Rightarrow>
             (case PersonProfile_load (system (research w)) (files s) (profile_json s) of
                Inl e \<Rightarrow> (s, Some e)
              | Inr profile \<Rightarrow>
                  (let persona = PromptGenerator_generate profile [] None;
                       persona_json = joinpath (subject_dir s) ''persona.json'';
                       prompt_txt = joinpath (subject_dir s) ''system_prompt.txt''
                   in case PersonaPrompt_save (system (research w)) persona persona_json
                             (files s) of
                        Inl e \<Rightarrow> (s, Some e)
                      | Inr fs1 \<Rightarrow>
                          (case write_file (system (research w)) fs1 prompt_txt
                                  (TextFile (system_prompt persona)) of
                             Inl e \<Rightarrow> (s\<lparr>files := fs1\<rparr>, Some e)
                           | Inr fs2 \<Rightarrow>
                               (step_done ''persona''
                                  (s\<lparr>files := fs2,
                                     result := (result s)
                                       \<lparr>persona_path := Some persona_json\<rparr>\<rparr>),
                                None))))))"

definition run_persona :: "pipeline_world \<Rightarrow> pipeline_state \<Rightarrow> bool \<times> pipeline_state" where
  "run_persona w s = handled Persona (persona_try w (banner Persona s))"

subsection \<open>The run\<close>

text \<open>
  \<open>run\<close> answers \<open>self.result\<close>, the \<open>result\<close> of the state answered here. Its own
  \<open>try\<close> has nothing to catch: every raise modelled here happens inside the \<open>try\<close> of a
  phase. It starts from the result as it finds it: nothing resets what an earlier run
  on the same pipeline has left there.
\<close>

definition run :: "pipeline_world \<Rightarrow> bool \<Rightarrow> pipeline_state \<Rightarrow> pipeline_state" where
  "run w skip_research s =
     (let r1 = (if \<not> skip_research then run_research w s
                else (True, s\<lparr>result := (result s)\<lparr>profile_path := Some (profile_json s)\<rparr>\<rparr>))
      in if \<not> fst r1 then snd r1
         else
           (let r2 = (if truthy (audio_url (config s)) \<or> truthy (audio_file (config s))
                      then run_audio w (snd r1) else (True, snd r1))
            in if \<not> fst r2 then snd r2
               else
                 (let r3 = run_documentation w (snd r2)
                  in if \<not> fst r3 then snd r3
                     else
                       (let r4 = run_persona w (snd r3)
                        in if \<not> fst r4 then snd r4
                           else (snd r4)\<lparr>result := (result (snd r4))\<lparr>success := True\<rparr>\<rparr>))))"

definition create_human ::
  "pipeline_world \<Rightarrow> filesystem \<Rightarrow> string \<Rightarrow> string option \<Rightarrow> string option \<Rightarrow> string option
     \<Rightarrow> bool \<Rightarrow> pipeline_state" where
  "create_human w fs nm context au af skip_research =
     run w skip_research (HumanPipeline_init (PipelineConfig_init nm context au af) fs)"

subsection \<open>Phases in the specification's words\<close>

text \<open>The name a phase appends to \<open>steps_completed\<close>, and its place in the fixed order.\<close>

fun step_name :: "phase \<Rightarrow> string" where
  "step_name Research = ''research''"
| "step_name Audio = ''audio''"
| "step_name Documentation = ''documentation''"
| "step_name Persona = ''persona''"

fun phase_order :: "phase \<Rightarrow> nat" where
  "phase_order Research = 0"
| "phase_order Audio = 1"
| "phase_order Documentation = 2"
| "phase_order Persona = 3"

text \<open>
  Where a run stands: \<open>entered_only P\<close> when the banners printed and the steps completed
  all belong to the phases of \<open>P\<close>, and \<open>failed_at P ph e\<close> when, after phases of \<open>P\<close>,
  the phase \<open>ph\<close> was entered and raised \<open>e\<close>, the last thing printed.
\<close>

definition entered_only :: "phase set \<Rightarrow> pipeline_state \<Rightarrow> bool" where
  "entered_only P s \<longleftrightarrow>
     set (console s) \<subseteq> PhaseBanner ` P \<and>
     set (steps_completed (result s)) \<subseteq> step_name ` P"

definition failed_at :: "phase set \<Rightarrow> phase \<Rightarrow> exn \<Rightarrow> pipeline_state \<Rightarrow> bool" where
  "failed_at P ph e s \<longleftrightarrow>
     (\<exists>pre. console s = pre @ [PhaseBanner ph, PhaseFailed ph e] \<and>
            set pre \<subseteq> PhaseBanner ` P) \<and>
     set (steps_completed (result s)) \<subseteq> step_name ` P \<and>
     error (result s) = Some (exn_str e)"

text \<open>The phases a run calls, in their order.\<close>

definition planned :: "bool \<Rightarrow> PipelineConfig \<Rightarrow> phase list" where
  "planned skip_research c =
     (if skip_research then [] else [Research]) @
     (if truthy (audio_url c) \<or> truthy (audio_file c) then [Audio] else []) @
     [Documentation, Persona]"

text \<open>
  A phase that raises: the \<open>try\<close> block of the phase, entered after its banner, is left
  by an exception. \<open>first_raise\<close> goes through the \<open>try\<close> blocks of the phases of a
  list, each from the state the one before has reached, and answers the first phase
  whose block raises, with the exception; \<open>raises_in_run\<close> does so for the phases of a
  run, from where the run starts them. The handlers have no part in either.
\<close>

definition try_phase :: "pipeline_world \<Rightarrow> phase \<Rightarrow> pipeline_state \<Rightarrow> pipeline_state \<times> exn option" where
  "try_phase w ph s =
     (case ph of
        Research \<Rightarrow> research_try w (banner Research s)
      | Audio \<Rightarrow> audio_try w (banner Audio s)
      | Documentation \<Rightarrow> documentation_try w (banner Documentation s)
      | Persona \<Rightarrow> persona_try w (banner Persona s))"

fun first_raise :: "pipeline_world \<Rightarrow> phase list \<Rightarrow> pipeline_state \<Rightarrow> (phase \<times> exn) option" where
  "first_raise w [] s = None"
| "first_raise w (ph # phs) s =
     (case snd (try_phase w ph s) of
        Some e \<Rightarrow> Some (ph, e)
      | None \<Rightarrow> first_raise w phs (fst (try_phase w ph s)))"

definition run_start :: "bool \<Rightarrow> pipeline_state \<Rightarrow> pipeline_state" where
  "run_start skip_research s =
     (if skip_research
      then s\<lparr>result := (result s)\<lparr>profile_path := Some (profile_json s)\<rparr>\<rparr>
      else s)"

definition raises_in_run ::
  "pipeline_world \<Rightarrow> bool \<Rightarrow> pipeline_state \<Rightarrow> (phase \<times> exn) option" where
  "raises_in_run w skip_research s =
     first_raise w (planned skip_research (config s)) (run_start skip_research s)"

text \<open>
  The calls of the phases, in the same words: the phases of a list are called in their
  order, each on the state the one before has left, until one answers False.
\<close>

definition run_phase :: "pipeline_world \<Rightarrow> phase \<Rightarrow> pipeline_state \<Rightarrow> bool \<times> pipeline_state" where
  "run_phase w ph s =
     (case ph of
        Research \<Rightarrow> run_research w s
      | Audio \<Rightarrow> run_audio w s
      | Documentation \<Rightarrow> run_documentation w s
      | Persona \<Rightarrow> run_persona w s)"

fun run_phases :: "pipeline_world \<Rightarrow> phase list \<Rightarrow> pipeline_state \<Rightarrow> bool \<times> pipeline_state" where
  "run_phases w [] s = (True, s)"
| "run_phases w (ph # phs) s =
     (if fst (run_phase w ph s) then run_phases w phs (snd (run_phase w ph s))
      else run_phase w ph s)"

subsection \<open>Stub collaborators\<close>

text \<open>
  A research client that answers one result and tools that all work; the same with a
  search that times out, raising \<open>TimeoutError()\<close>, whose string form is empty; with a
  search that raises with a message; and on a machine without \<open>torch\<close>.
\<close>

definition stub_result :: SearchResult where
  "stub_result =
     \<lparr>title = ''John Doe, painter'', result_url = ''https://example.org/john'',
      content = ''John Doe paints.'', published_date = None\<rparr>"

definition stub_research :: research_world where
  "stub_research =
     \<lparr>system = demo_os, searcher_init = None,
      client_search = (\<lambda>q. Inr [stub_result]),
      re_search = (\<lambda>pattern s. None),
      re_findall = (\<lambda>pattern s. [])\<rparr>"

definition stub_world :: pipeline_world where
  "stub_world =
     \<lparr>research = stub_research, downloader_init = None,
      yt_dlp = (\<lambda>u d. YtDone (Some ''source.wav'')),
      separator_init = None, demucs = (\<lambda>p. DemucsDone), generator_init = None,
      render_profile = (\<lambda>p. Inr (''# '' @ name p)),
      render_facettes = (\<lambda>n fa. Inr (''# Les Facettes de '' @ n)),
      avatar_import = None\<rparr>"

definition failing_world :: pipeline_world where
  "failing_world =
     stub_world\<lparr>research := stub_research
       \<lparr>client_search := (\<lambda>q. Inl (Exception ''TimeoutError'' []))\<rparr>\<rparr>"

definition offline_world :: pipeline_world where
  "offline_world =
     stub_world\<lparr>research := stub_research
       \<lparr>client_search := (\<lambda>q. Inl (Exception ''ConnectionError'' ''network unreachable''))\<rparr>\<rparr>"

definition torchless_world :: pipeline_world where
  "torchless_world =
     stub_world\<lparr>avatar_import :=
       Some (Exception ''ModuleNotFoundError'' (''No module named '' @ py_quote ''torch''))\<rparr>"

subsection \<open>What a saved profile reads back as\<close>

text \<open>
  The document of a profile holds neither the sources of its facettes, nor the verified
  flags of its social profiles, nor its raw information.
\<close>

definition reloaded :: "PersonProfile \<Rightarrow> PersonProfile" where
  "reloaded p =
     p\<lparr>social_profiles := map (\<lambda>sp. sp\<lparr>verified := False\<rparr>) (social_profiles p),
       facettes := map (\<lambda>f. f\<lparr>facette_sources := []\<rparr>) (facettes p),
       raw_info := []\<rparr>"


section \<open>Voice cloning\<close>


text \<open>
  What the avatar takes from outside: the language model, called for a whole response
  (its text and token count, or a raise) or for a stream (the fragments it yields and the
  exception that ends the stream, if any); the speech model, which raises or returns,
  having written the output file or not; \<open>soundfile.read\<close>, answering the number of
  frames and the sample rate, whose quotient is the duration; the text of the traceback
  of an exception; and the operating system. Sampling parameters are part of the
  language model.
\<close>

datatype tts_outcome = TtsRaised exn | TtsReturned bool

record avatar_world =
  llm :: "string \<Rightarrow> exn + (string \<times> nat)"
  llm_stream :: "string \<Rightarrow> string list \<times> exn option"
  tts_to_file :: "string \<Rightarrow> string \<Rightarrow> string \<Rightarrow> Path \<Rightarrow> tts_outcome"
  sf_read :: "Path \<Rightarrow> exn + (nat \<times> nat)"
  format_exc :: "exn \<Rightarrow> string"
  host :: os_world









section \<open>The avatar engine\<close>

record ConversationMessage =
  role :: string
  message_content :: string

text \<open>The generation time of a response, read off the wall clock, is left out.\<close>

record AvatarResponse =
  response_text :: string
  audio_path :: "Path option"
  tokens_used :: nat

text \<open>
  An engine: its persona, its output directory, the output directory of its voice cloner
  when it has one, the reference voice sample, the history and the counter of responses.
\<close>

record AvatarEngine =
  engine_persona :: PersonaPrompt
  engine_output_dir :: Path
  voice_enabled :: bool
  voice_cloner :: "Path option"
  speaker_wav :: "string option"
  history :: "ConversationMessage list"
  response_counter :: nat

text \<open>The constructor, when the models load.\<close>

definition AvatarEngine_init ::
  "PersonaPrompt \<Rightarrow> string option \<Rightarrow> string \<Rightarrow> bool \<Rightarrow> AvatarEngine" where
  "AvatarEngine_init p speaker dir voice =
     \<lparr>engine_persona = p, engine_output_dir = parse_path dir, voice_enabled = voice,
      voice_cloner = (if voice \<and> truthy speaker then Some (parse_path dir) else None),
      speaker_wav = speaker, history = [], response_counter = 0\<rparr>"

definition build_prompt :: "AvatarEngine \<Rightarrow> string \<Rightarrow> string" where
  "build_prompt e user_message =
     py_join NL
       ([''<|im_start|>system'' @ NL @ system_prompt (engine_persona e) @ ''<|im_end|>''] @
        map (\<lambda>m. ''<|im_start|>'' @ role m @ NL @ message_content m @ ''<|im_end|>'')
          (history e) @
        [''<|im_start|>user'' @ NL @ user_message @ ''<|im_end|>'',
         ''<|im_start|>assistant'' @ NL])"

definition turn :: "string \<Rightarrow> string \<Rightarrow> ConversationMessage" where
  "turn r c = \<lparr>role = r, message_content = c\<rparr>"




subsection \<open>Streaming\<close>

text \<open>
  The generator object of \<open>chat_stream\<close>: nothing of its body runs before the first
  \<open>next\<close>; each \<open>next\<close> runs to the next \<open>yield\<close>, to the end of the body
  (\<open>StopIteration\<close>) or to a raise of the stream. \<open>close\<close> ends it where it stands.
\<close>

datatype stream_state =
    Created
  | Suspended "string list" "exn option" string
  | Finished

record chat_stream_gen =
  gen_message :: string
  gen_state :: stream_state

datatype signal = Yield string | StopIteration | Raised exn

definition chat_stream :: "string \<Rightarrow> chat_stream_gen" where
  "chat_stream user_message = \<lparr>gen_message = user_message, gen_state = Created\<rparr>"

text \<open>The loop over the stream, entered or resumed with the response so far.\<close>

definition stream_loop ::
  "AvatarEngine \<Rightarrow> chat_stream_gen \<Rightarrow> string list \<Rightarrow> exn option \<Rightarrow> string
     \<Rightarrow> signal \<times> AvatarEngine \<times> chat_stream_gen" where
  "stream_loop e g tokens ending full_response =
     (case tokens of
        token # rest \<Rightarrow>
          (Yield token, e, g\<lparr>gen_state := Suspended rest ending (full_response @ token)\<rparr>)
      | [] \<Rightarrow>
          (case ending of
             Some x \<Rightarrow> (Raised x, e, g\<lparr>gen_state := Finished\<rparr>)
           | None \<Rightarrow>
               (StopIteration,
                e\<lparr>history := history e @
                    [turn ''user'' (gen_message g),
                     turn ''assistant'' (py_strip full_response)]\<rparr>,
                g\<lparr>gen_state := Finished\<rparr>)))"

definition gen_next ::
  "avatar_world \<Rightarrow> AvatarEngine \<times> chat_stream_gen \<Rightarrow> signal \<times> AvatarEngine \<times> chat_stream_gen" where
  "gen_next w eg =
     (case gen_state (snd eg) of
        Created \<Rightarrow>
          (let stream = llm_stream w (build_prompt (fst eg) (gen_message (snd eg)))
           in stream_loop (fst eg) (snd eg) (fst stream) (snd stream) [])
      | Suspended tokens ending full_response \<Rightarrow>
          stream_loop (fst eg) (snd eg) tokens ending full_response
      | Finished \<Rightarrow> (StopIteration, fst eg, snd eg))"

definition gen_close :: "AvatarEngine \<times> chat_stream_gen \<Rightarrow> AvatarEngine \<times> chat_stream_gen" where
  "gen_close eg = (fst eg, (snd eg)\<lparr>gen_state := Finished\<rparr>)"

text \<open>A consumer that calls \<open>next\<close> \<open>k\<close> times: what it was given, and where that leaves things.\<close>

fun consume ::
  "avatar_world \<Rightarrow> nat \<Rightarrow> AvatarEngine \<times> chat_stream_gen
     \<Rightarrow> signal list \<times> AvatarEngine \<times> chat_stream_gen" where
  "consume w 0 eg = ([], eg)"
| "consume w (Suc k) eg =
     (let r = gen_next w eg; rest = consume w k (snd r)
      in (fst r # fst rest, snd rest))"

subsection \<open>A stub avatar\<close>

text \<open>
  A language model that answers a greeting, in one piece or in three fragments, and a
  speech model that runs out of memory; the same where the output directory cannot be
  made; an engine with a cloner and a reference sample.
\<close>

definition stub_avatar :: avatar_world where
  "stub_avatar =
     \<lparr>llm = (\<lambda>prompt. Inr ('' Bonjour! '', 12)),
      llm_stream = (\<lambda>prompt. ([''Bon'', ''jour'', ''! ''], None)),
      tts_to_file = (\<lambda>t speaker lang out.
         TtsRaised (Exception ''RuntimeError'' ''CUDA out of memory'')),
      sf_read = (\<lambda>p. Inr (48000, 24000)),
      format_exc = (\<lambda>e. ''Traceback (most recent call last)''),
      host = demo_os\<rparr>"


definition demo_engine :: AvatarEngine where
  "demo_engine =
     AvatarEngine_init (PromptGenerator_generate demo_profile [] None) (Some ''voice.wav'')
       ''data/voices/conversations'' True"


section \<open>Verified properties\<close>

subsection \<open>Strings and summaries\<close>

lemma py_replace_char:
  "py_replace s [a] [b] = map (\<lambda>c. if c = a then b else c) s"
proof (induction s)
  case Nil
  show ?case by simp
next
  case (Cons x xs)
  show ?case by (subst py_replace.simps) (use Cons in auto)
qed

lemma strip_nonempty_filter:
  "strip_nonempty ss = filter (\<lambda>s. s \<noteq> []) (map py_strip ss)"
  by (induction ss) auto

lemma summary_points_filter:
  "summary_points acc ss = acc @ map (\<lambda>s. ''- '' @ s) (filter (\<lambda>s. 20 < length s) ss)"
  by (induction ss arbitrary: acc) auto

text \<open>
  C6. The subject directory is the data directory joined with the subject name lowercased
  and with its spaces replaced by underscores; two configurations with the same data
  directory whose names agree after that normalisation get the same directory.
\<close>

theorem get_subject_dir_normalised:
  "get_subject_dir c = joinpath (parse_path (data_dir c)) (subject_key (subject_name c)) \<and>
   (data_dir c = data_dir c' \<and> subject_key (subject_name c) = subject_key (subject_name c')
      \<longrightarrow> get_subject_dir c = get_subject_dir c')"
proof -
  have key: "get_subject_dir d = joinpath (parse_path (data_dir d)) (subject_key (subject_name d))"
    for d
    unfolding get_subject_dir_def subject_key_def py_lower_def Let_def
    by (simp only: py_replace_char)
  show ?thesis
  proof (intro conjI impI)
    show "get_subject_dir c = joinpath (parse_path (data_dir c)) (subject_key (subject_name c))"
      by (rule key)
  next
    assume "data_dir c = data_dir c' \<and>
      subject_key (subject_name c) = subject_key (subject_name c')"
    then show "get_subject_dir c = get_subject_dir c'"
      by (simp only: key)
  qed
qed

text \<open>C6 at \<open>John Doe\<close> and \<open>john doe\<close>: both map to \<open>data/subjects/john_doe\<close>.\<close>

theorem get_subject_dir_normalised_witness:
  "data_dir (PipelineConfig_init ''John Doe'' None None None) =
     data_dir (PipelineConfig_init ''john doe'' (Some ''x'') None None) \<and>
   subject_key (subject_name (PipelineConfig_init ''John Doe'' None None None)) =
     subject_key (subject_name (PipelineConfig_init ''john doe'' (Some ''x'') None None)) \<and>
   get_subject_dir (PipelineConfig_init ''John Doe'' None None None) =
     get_subject_dir (PipelineConfig_init ''john doe'' (Some ''x'') None None) \<and>
   get_subject_dir (PipelineConfig_init ''John Doe'' None None None) =
     \<lparr>root = [], parts = [''data'', ''subjects'', ''john_doe'']\<rparr>"
proof -
  let ?c = "PipelineConfig_init ''John Doe'' None None None"
  let ?c' = "PipelineConfig_init ''john doe'' (Some ''x'') None None"
  have dir: "get_subject_dir ?c = \<lparr>root = [], parts = [''data'', ''subjects'', ''john_doe'']\<rparr>"
    by code_simp
  have key: "subject_key (subject_name ?c) = subject_key (subject_name ?c')"
    by code_simp
  have dd: "data_dir ?c = data_dir ?c'"
    by (simp add: PipelineConfig_init_def)
  have eq: "get_subject_dir ?c = get_subject_dir ?c'"
    by (rule mp [OF conjunct2 [OF get_subject_dir_normalised [of ?c ?c']] conjI [OF dd key]])
  show ?thesis
    by (intro conjI dd key eq dir)
qed

text \<open>
  C9 as stated fails: the one short sentence of \<open>Hello world.\<close> is not rendered as a
  line; the summary is the fallback message.
\<close>

theorem generate_summary_counterexample:
  "generate_summary ''Hello world.'' 5 = ''Contenu trop court pour resumer.'' \<and>
   first_sentences_summary ''Hello world.'' 5 = ''- Hello world'' \<and>
   generate_summary ''Hello world.'' 5 \<noteq> first_sentences_summary ''Hello world.'' 5"
  by (simp add: generate_summary_def first_sentences_summary_def sentence_delim_def
      py_strip_def py_isspace_def py_slice_to_def)

text \<open>
  C9, amended. For a non-negative \<open>max_points\<close>, the summary keeps, of the first
  \<open>max_points\<close> stripped non-empty sentences, those longer than 20 characters, each as
  a line that starts with \<open>- \<close>; without any sentence, or without a long one among the
  first \<open>max_points\<close>, it is a fixed message.
\<close>

theorem generate_summary_long_sentences:
  "0 \<le> n \<Longrightarrow>
   generate_summary text n =
     (let sentences = filter (\<lambda>s. s \<noteq> []) (map py_strip (re_split_class sentence_delim text));
          long = filter (\<lambda>s. 20 < length s) (take (nat n) sentences)
      in if sentences = [] then ''Aucun contenu a resumer.''
         else if long = [] then ''Contenu trop court pour resumer.''
         else py_join NL (map (\<lambda>s. ''- '' @ s) long))"
proof -
  have dash: "(@) ''- '' = (\<lambda>s. CHR ''-'' # CHR '' '' # s)"
    by (rule ext) simp
  assume "0 \<le> n"
  then show ?thesis
    by (simp add: generate_summary_def Let_def strip_nonempty_filter summary_points_filter
        py_slice_to_def dash)
qed

text \<open>C9, amended, on a text of three long sentences with \<open>max_points = 2\<close>.\<close>

theorem generate_summary_long_sentences_witness:
  "(0::int) \<le> 2 \<and>
   generate_summary ''This is a long sentence number one. And here is another long one! Third long sentence is dropped?'' 2 =
     ''- This is a long sentence number one\<newline>- And here is another long one''"
proof -
  have a: "generate_summary ''This is a long sentence number one. And here is another long one! Third long sentence is dropped?'' 2 =
     (let sentences = filter (\<lambda>s. s \<noteq> []) (map py_strip (re_split_class sentence_delim ''This is a long sentence number one. And here is another long one! Third long sentence is dropped?''));
          long = filter (\<lambda>s. 20 < length s) (take (nat 2) sentences)
      in if sentences = [] then ''Aucun contenu a resumer.''
         else if long = [] then ''Contenu trop court pour resumer.''
         else py_join NL (map (\<lambda>s. ''- '' @ s) long))"
    by (rule generate_summary_long_sentences) simp
  have b: "(let sentences = filter (\<lambda>s. s \<noteq> []) (map py_strip (re_split_class sentence_delim ''This is a long sentence number one. And here is another long one! Third long sentence is dropped?''));
          long = filter (\<lambda>s. 20 < length s) (take (nat 2) sentences)
      in if sentences = [] then ''Aucun contenu a resumer.''
         else if long = [] then ''Contenu trop court pour resumer.''
         else py_join NL (map (\<lambda>s. ''- '' @ s) long)) =
       ''- This is a long sentence number one\<newline>- And here is another long one''"
    by (simp add: sentence_delim_def py_strip_def py_isspace_def NL_def)
  have c: "generate_summary ''This is a long sentence number one. And here is another long one! Third long sentence is dropped?'' 2 =
       ''- This is a long sentence number one\<newline>- And here is another long one''"
    by (rule trans [OF a b])
  have d: "(0::int) \<le> 2"
    by simp
  show ?thesis
    by (rule conjI [OF d c])
qed


subsection \<open>Saving and loading a profile\<close>

lemma traverse_map:
  assumes "\<And>x. f (g x) = Inr (h x)"
  shows "traverse f (map g xs) = Inr (map h xs)"
  by (induction xs) (simp_all add: assms bind_def)

lemma as_string_list_json_strings: "as_string_list (json_strings xs) = Inr xs"
proof -
  have "traverse as_string (map JString xs) = Inr (map (\<lambda>x. x) xs)"
    by (rule traverse_map) (simp add: as_string_def)
  then show ?thesis
    by (simp add: as_string_list_def json_strings_def)
qed

lemma as_opt_string_json_opt_string: "as_opt_string (json_opt_string x) = Inr x"
  by (cases x) (simp_all add: as_opt_string_def json_opt_string_def)

lemma facette_from_json_to_dict:
  "facette_from_json (facette_to_dict f) = Inr (f\<lparr>facette_sources := []\<rparr>)"
  by (simp add: facette_from_json_def facette_to_dict_def as_dict_def bind_def
      dict_get_default_def as_string_def as_opt_string_json_opt_string
      as_string_list_json_strings)

lemma social_profile_from_json_to_dict:
  "social_profile_from_json (social_profile_to_dict sp) = Inr (sp\<lparr>verified := False\<rparr>)"
  by (simp add: social_profile_from_json_def social_profile_to_dict_def as_dict_def bind_def
      dict_get_default_def as_string_def as_opt_string_json_opt_string)

lemma PersonProfile_from_json_to_dict:
  "PersonProfile_from_json os (to_dict p) =
     Inr (p\<lparr>social_profiles := map (\<lambda>sp. sp\<lparr>verified := False\<rparr>) (social_profiles p),
            facettes := map (\<lambda>f. f\<lparr>facette_sources := []\<rparr>) (facettes p),
            raw_info := []\<rparr>)"
  by (simp add: PersonProfile_from_json_def to_dict_def dict_get_def dict_get_default_def
      bind_def as_string_def as_opt_string_json_opt_string as_string_list_json_strings
      py_iter_def known_keys_def
      traverse_map [of facette_from_json facette_to_dict, OF facette_from_json_to_dict]
      traverse_map [of social_profile_from_json social_profile_to_dict,
        OF social_profile_from_json_to_dict])

lemma PersonProfile_from_json_alternate:
  "PersonProfile_from_json os (with_alternate_names (to_dict p)) =
     Inr (p\<lparr>social_profiles := map (\<lambda>sp. sp\<lparr>verified := False\<rparr>) (social_profiles p),
            facettes := map (\<lambda>f. f\<lparr>facette_sources := []\<rparr>) (facettes p),
            raw_info := []\<rparr>)"
  by (simp add: PersonProfile_from_json_def to_dict_def dict_get_def dict_get_default_def
      with_alternate_names_def alternate_key_def
      bind_def as_string_def as_opt_string_json_opt_string as_string_list_json_strings
      py_iter_def known_keys_def
      traverse_map [of facette_from_json facette_to_dict, OF facette_from_json_to_dict]
      traverse_map [of social_profile_from_json social_profile_to_dict,
        OF social_profile_from_json_to_dict])

text \<open>
  C1 as stated fails: the sources of a facette are not written, so the facette list that
  comes back differs from the one saved.
\<close>

theorem PersonProfile_save_load_counterexample:
  "PersonProfile_save demo_os demo_profile demo_profile_path Map.empty =
     Inr [demo_profile_path \<mapsto> JsonFile (to_dict demo_profile)] \<and>
   PersonProfile_load demo_os [demo_profile_path \<mapsto> JsonFile (to_dict demo_profile)]
       demo_profile_path =
     Inr (demo_profile\<lparr>facettes := [demo_facette\<lparr>facette_sources := []\<rparr>]\<rparr>) \<and>
   facettes (demo_profile\<lparr>facettes := [demo_facette\<lparr>facette_sources := []\<rparr>]\<rparr>)
     \<noteq> facettes demo_profile"
proof (intro conjI)
  show "PersonProfile_save demo_os demo_profile demo_profile_path Map.empty =
     Inr [demo_profile_path \<mapsto> JsonFile (to_dict demo_profile)]"
    by (simp add: PersonProfile_save_def write_file_def demo_os_def)
  show "PersonProfile_load demo_os [demo_profile_path \<mapsto> JsonFile (to_dict demo_profile)]
       demo_profile_path =
     Inr (demo_profile\<lparr>facettes := [demo_facette\<lparr>facette_sources := []\<rparr>]\<rparr>)"
    by (simp add: PersonProfile_load_def read_json_def bind_def PersonProfile_from_json_to_dict)
       (simp add: demo_profile_def)
  show "facettes (demo_profile\<lparr>facettes := [demo_facette\<lparr>facette_sources := []\<rparr>]\<rparr>)
     \<noteq> facettes demo_profile"
    by (simp add: demo_profile_def demo_facette_def)
qed

text \<open>
  C1, amended. After a \<open>save\<close> that succeeds, \<open>load\<close> of the same path answers a
  profile with the name, professions, bio, location and keyword list of the saved one,
  and with its facette list up to the sources of each facette, which come back empty.
  The same document with \<open>occupations\<close> for \<open>professions\<close> and \<open>biography\<close> for
  \<open>bio\<close> loads as the same profile.
\<close>

theorem PersonProfile_save_load:
  assumes "PersonProfile_save os p path fs = Inr fs'"
  shows "\<exists>p'. PersonProfile_load os' fs' path = Inr p' \<and>
     PersonProfile_load os' (fs'(path \<mapsto> JsonFile (with_alternate_names (to_dict p)))) path
       = Inr p' \<and>
     name p' = name p \<and> professions p' = professions p \<and> bio p' = bio p \<and>
     location p' = location p \<and> profile_keywords p' = profile_keywords p \<and>
     facettes p' = map (\<lambda>f. f\<lparr>facette_sources := []\<rparr>) (facettes p)"
proof -
  from assms have fs': "fs' = fs(path \<mapsto> JsonFile (to_dict p))"
    by (auto simp: PersonProfile_save_def write_file_def split: option.splits)
  have "PersonProfile_load os' fs' path = PersonProfile_from_json os' (to_dict p)"
    by (simp add: fs' PersonProfile_load_def read_json_def bind_def)
  moreover have "PersonProfile_load os'
      (fs'(path \<mapsto> JsonFile (with_alternate_names (to_dict p)))) path =
      PersonProfile_from_json os' (with_alternate_names (to_dict p))"
    by (simp add: PersonProfile_load_def read_json_def bind_def)
  ultimately show ?thesis
    by (simp add: PersonProfile_from_json_to_dict PersonProfile_from_json_alternate)
qed

text \<open>C1, amended, at the demonstration profile on an empty file system.\<close>

theorem PersonProfile_save_load_witness:
  "PersonProfile_save demo_os demo_profile demo_profile_path Map.empty =
     Inr [demo_profile_path \<mapsto> JsonFile (to_dict demo_profile)] \<and>
   (\<exists>p'. PersonProfile_load demo_os [demo_profile_path \<mapsto> JsonFile (to_dict demo_profile)]
         demo_profile_path = Inr p' \<and>
     PersonProfile_load demo_os
       ([demo_profile_path \<mapsto> JsonFile (to_dict demo_profile)]
          (demo_profile_path \<mapsto> JsonFile (with_alternate_names (to_dict demo_profile))))
       demo_profile_path = Inr p' \<and>
     name p' = name demo_profile \<and> professions p' = professions demo_profile \<and>
     bio p' = bio demo_profile \<and> location p' = location demo_profile \<and>
     profile_keywords p' = profile_keywords demo_profile \<and>
     facettes p' = map (\<lambda>f. f\<lparr>facette_sources := []\<rparr>) (facettes demo_profile))"
proof -
  have saved: "PersonProfile_save demo_os demo_profile demo_profile_path Map.empty =
     Inr [demo_profile_path \<mapsto> JsonFile (to_dict demo_profile)]"
    by (simp add: PersonProfile_save_def write_file_def demo_os_def)
  show ?thesis
    by (rule conjI [OF saved PersonProfile_save_load [OF saved, of demo_os]])
qed

subsection \<open>The pipeline run\<close>

lemma research_try_frame:
  assumes "research_try w s = (s', eo)"
  shows "console s' = console s \<and> config s' = config s \<and> subject_dir s' = subject_dir s \<and>
    success (result s') = success (result s) \<and> error (result s') = error (result s) \<and>
    (eo \<noteq> None \<longrightarrow> steps_completed (result s') = steps_completed (result s)) \<and>
    (eo = None \<longrightarrow> steps_completed (result s') = steps_completed (result s) @ [''research''])"
  using assms
  by (auto simp: research_try_def step_done_def Let_def
      split: option.splits sum.splits; metis)

lemma audio_try_frame:
  assumes "audio_try w s = (s', eo)"
  shows "console s' = console s \<and> config s' = config s \<and> subject_dir s' = subject_dir s \<and>
    success (result s') = success (result s) \<and> error (result s') = error (result s) \<and>
    profile_path (result s') = profile_path (result s) \<and>
    persona_path (result s') = persona_path (result s) \<and>
    (eo \<noteq> None \<longrightarrow> steps_completed (result s') = steps_completed (result s)) \<and>
    (eo = None \<longrightarrow> steps_completed (result s') = steps_completed (result s) \<or>
         steps_completed (result s') = steps_completed (result s) @ [''audio''])"
  using assms
  by (auto simp: audio_try_def step_done_def Let_def
      split: option.splits sum.splits prod.splits if_splits)

lemma documentation_try_frame:
  assumes "documentation_try w s = (s', eo)"
  shows "console s' = console s \<and> config s' = config s \<and> subject_dir s' = subject_dir s \<and>
    success (result s') = success (result s) \<and> error (result s') = error (result s) \<and>
    profile_path (result s') = profile_path (result s) \<and>
    (eo \<noteq> None \<longrightarrow> steps_completed (result s') = steps_completed (result s)) \<and>
    (eo = None \<longrightarrow> steps_completed (result s') = steps_completed (result s) \<or>
         steps_completed (result s') = steps_completed (result s) @ [''documentation''])"
  using assms
  by (auto simp: documentation_try_def step_done_def Let_def
      split: option.splits sum.splits if_splits bool.splits)

lemma persona_try_frame:
  assumes "persona_try w s = (s', eo)"
  shows "console s' = console s \<and> config s' = config s \<and> subject_dir s' = subject_dir s \<and>
    success (result s') = success (result s) \<and> error (result s') = error (result s) \<and>
    profile_path (result s') = profile_path (result s) \<and>
    (eo \<noteq> None \<longrightarrow> steps_completed (result s') = steps_completed (result s)) \<and>
    (eo = None \<longrightarrow> steps_completed (result s') = steps_completed (result s) \<or>
         steps_completed (result s') = steps_completed (result s) @ [''persona''])"
  using assms
  by (auto simp: persona_try_def step_done_def Let_def
      split: option.splits sum.splits if_splits bool.splits)

lemma banner_fields [simp]:
  "console (banner ph s) = console s @ [PhaseBanner ph]"
  "config (banner ph s) = config s"
  "subject_dir (banner ph s) = subject_dir s"
  "result (banner ph s) = result s"
  "files (banner ph s) = files s"
  by (simp_all add: banner_def)

text \<open>What the handler makes of a \<open>try\<close> block that keeps the frame.\<close>

lemma handled_step:
  assumes tr: "tr (banner ph s) = (s1, eo)"
    and con: "console s1 = console (banner ph s)"
    and err: "error (result s1) = error (result s)"
    and suc: "success (result s1) = success (result s)"
    and steps_fail: "eo \<noteq> None \<longrightarrow> steps_completed (result s1) = steps_completed (result s)"
    and steps_ok: "eo = None \<longrightarrow> steps_completed (result s1) = steps_completed (result s) \<or>
        steps_completed (result s1) = steps_completed (result s) @ [step_name ph]"
    and inv: "entered_only P s"
  shows "success (result (snd (handled ph (tr (banner ph s))))) = success (result s)"
    and "fst (handled ph (tr (banner ph s))) \<Longrightarrow>
           entered_only (insert ph P) (snd (handled ph (tr (banner ph s)))) \<and>
           error (result (snd (handled ph (tr (banner ph s))))) = error (result s)"
    and "\<not> fst (handled ph (tr (banner ph s))) \<Longrightarrow>
           \<exists>e. failed_at P ph e (snd (handled ph (tr (banner ph s))))"
proof -
  show "success (result (snd (handled ph (tr (banner ph s))))) = success (result s)"
    using suc by (cases eo) (simp_all add: tr handled_def)
  show "entered_only (insert ph P) (snd (handled ph (tr (banner ph s)))) \<and>
           error (result (snd (handled ph (tr (banner ph s))))) = error (result s)"
    if "fst (handled ph (tr (banner ph s)))"
  proof -
    from that have eo: "eo = None"
      by (cases eo) (simp_all add: tr handled_def)
    with steps_ok con inv err show ?thesis
      by (auto simp: tr handled_def entered_only_def)
  qed
  show "\<exists>e. failed_at P ph e (snd (handled ph (tr (banner ph s))))"
    if "\<not> fst (handled ph (tr (banner ph s)))"
  proof -
    from that obtain e where eo: "eo = Some e"
      by (cases eo) (simp_all add: tr handled_def)
    with steps_fail con inv have "failed_at P ph e (snd (handled ph (tr (banner ph s))))"
      by (auto simp: tr handled_def entered_only_def failed_at_def)
    then show ?thesis ..
  qed
qed

lemma run_research_step:
  assumes "entered_only P s"
  shows "success (result (snd (run_research w s))) = success (result s)"
    and "fst (run_research w s) \<Longrightarrow>
           entered_only (insert Research P) (snd (run_research w s)) \<and>
           error (result (snd (run_research w s))) = error (result s)"
    and "\<not> fst (run_research w s) \<Longrightarrow> \<exists>e. failed_at P Research e (snd (run_research w s))"
proof -
  obtain s1 eo where tr: "research_try w (banner Research s) = (s1, eo)"
    by (cases "research_try w (banner Research s)")
  note fr = research_try_frame [OF tr]
  note st = handled_step [where tr = "research_try w" and ph = Research and P = P, OF tr _ _ _ _ _ assms]
  show "success (result (snd (run_research w s))) = success (result s)"
    unfolding run_research_def using fr by (intro st(1)) simp_all
  show "fst (run_research w s) \<Longrightarrow>
           entered_only (insert Research P) (snd (run_research w s)) \<and>
           error (result (snd (run_research w s))) = error (result s)"
    unfolding run_research_def using fr by (intro st(2)) simp_all
  show "\<not> fst (run_research w s) \<Longrightarrow> \<exists>e. failed_at P Research e (snd (run_research w s))"
    unfolding run_research_def using fr by (intro st(3)) simp_all
qed

lemma run_audio_step:
  assumes "entered_only P s"
  shows "success (result (snd (run_audio w s))) = success (result s)"
    and "fst (run_audio w s) \<Longrightarrow>
           entered_only (insert Audio P) (snd (run_audio w s)) \<and>
           error (result (snd (run_audio w s))) = error (result s)"
    and "\<not> fst (run_audio w s) \<Longrightarrow> \<exists>e. failed_at P Audio e (snd (run_audio w s))"
proof -
  obtain s1 eo where tr: "audio_try w (banner Audio s) = (s1, eo)"
    by (cases "audio_try w (banner Audio s)")
  note fr = audio_try_frame [OF tr]
  note st = handled_step [where tr = "audio_try w" and ph = Audio and P = P, OF tr _ _ _ _ _ assms]
  show "success (result (snd (run_audio w s))) = success (result s)"
    unfolding run_audio_def using fr by (intro st(1)) simp_all
  show "fst (run_audio w s) \<Longrightarrow>
           entered_only (insert Audio P) (snd (run_audio w s)) \<and>
           error (result (snd (run_audio w s))) = error (result s)"
    unfolding run_audio_def using fr by (intro st(2)) simp_all
  show "\<not> fst (run_audio w s) \<Longrightarrow> \<exists>e. failed_at P Audio e (snd (run_audio w s))"
    unfolding run_audio_def using fr by (intro st(3)) simp_all
qed

lemma run_documentation_step:
  assumes "entered_only P s"
  shows "success (result (snd (run_documentation w s))) = success (result s)"
    and "fst (run_documentation w s) \<Longrightarrow>
           entered_only (insert Documentation P) (snd (run_documentation w s)) \<and>
           error (result (snd (run_documentation w s))) = error (result s)"
    and "\<not> fst (run_documentation w s) \<Longrightarrow> \<exists>e. failed_at P Documentation e (snd (run_documentation w s))"
proof -
  obtain s1 eo where tr: "documentation_try w (banner Documentation s) = (s1, eo)"
    by (cases "documentation_try w (banner Documentation s)")
  note fr = documentation_try_frame [OF tr]
  note st = handled_step [where tr = "documentation_try w" and ph = Documentation and P = P, OF tr _ _ _ _ _ assms]
  show "success (result (snd (run_documentation w s))) = success (result s)"
    unfolding run_documentation_def using fr by (intro st(1)) simp_all
  show "fst (run_documentation w s) \<Longrightarrow>
           entered_only (insert Documentation P) (snd (run_documentation w s)) \<and>
           error (result (snd (run_documentation w s))) = error (result s)"
    unfolding run_documentation_def using fr by (intro st(2)) simp_all
  show "\<not> fst (run_documentation w s) \<Longrightarrow> \<exists>e. failed_at P Documentation e (snd (run_documentation w s))"
    unfolding run_documentation_def using fr by (intro st(3)) simp_all
qed

lemma run_persona_step:
  assumes "entered_only P s"
  shows "success (result (snd (run_persona w s))) = success (result s)"
    and "fst (run_persona w s) \<Longrightarrow>
           entered_only (insert Persona P) (snd (run_persona w s)) \<and>
           error (result (snd (run_persona w s))) = error (result s)"
    and "\<not> fst (run_persona w s) \<Longrightarrow> \<exists>e. failed_at P Persona e (snd (run_persona w s))"
proof -
  obtain s1 eo where tr: "persona_try w (banner Persona s) = (s1, eo)"
    by (cases "persona_try w (banner Persona s)")
  note fr = persona_try_frame [OF tr]
  note st = handled_step [where tr = "persona_try w" and ph = Persona and P = P, OF tr _ _ _ _ _ assms]
  show "success (result (snd (run_persona w s))) = success (result s)"
    unfolding run_persona_def using fr by (intro st(1)) simp_all
  show "fst (run_persona w s) \<Longrightarrow>
           entered_only (insert Persona P) (snd (run_persona w s)) \<and>
           error (result (snd (run_persona w s))) = error (result s)"
    unfolding run_persona_def using fr by (intro st(2)) simp_all
  show "\<not> fst (run_persona w s) \<Longrightarrow> \<exists>e. failed_at P Persona e (snd (run_persona w s))"
    unfolding run_persona_def using fr by (intro st(3)) simp_all
qed





lemma failed_at_mono: "failed_at P ph e s \<Longrightarrow> P \<subseteq> Q \<Longrightarrow> failed_at Q ph e s"
  unfolding failed_at_def by blast

lemma run_failedI:
  assumes "ph \<in> set pl" and "\<not> success (result f)" and "failed_at P ph e f"
    and "P \<subseteq> {q \<in> set pl. phase_order q < phase_order ph}"
  shows "A \<or> (\<not> success (result f) \<and>
      (\<exists>ph e. ph \<in> set pl \<and>
         failed_at {q \<in> set pl. phase_order q < phase_order ph} ph e f))"
  using assms failed_at_mono by blast

lemma run_chain:
  assumes "r1 = (if \<not> skip then run_research w s
                else (True, s\<lparr>result := (result s)\<lparr>profile_path := Some (profile_json s)\<rparr>\<rparr>))"
    and "r2 = (if truthy (audio_url (config s)) \<or> truthy (audio_file (config s))
                then run_audio w (snd r1) else (True, snd r1))"
    and "r3 = run_documentation w (snd r2)"
    and "r4 = run_persona w (snd r3)"
  shows "run w skip s =
     (if \<not> fst r1 then snd r1
      else if \<not> fst r2 then snd r2
      else if \<not> fst r3 then snd r3
      else if \<not> fst r4 then snd r4
      else (snd r4)\<lparr>result := (result (snd r4))\<lparr>success := True\<rparr>\<rparr>)"
  unfolding assms run_def Let_def by (rule refl)


lemma run_phase_handled: "run_phase w ph s = handled ph (try_phase w ph s)"
  by (cases ph)
    (simp_all add: run_phase_def try_phase_def run_research_def run_audio_def
      run_documentation_def run_persona_def)

lemma try_phase_frame:
  assumes "try_phase w ph s = (s', eo)"
  shows "console s' = console s @ [PhaseBanner ph]"
    and "config s' = config s"
    and "success (result s') = success (result s)"
    and "error (result s') = error (result s)"
    and "eo \<noteq> None \<Longrightarrow> steps_completed (result s') = steps_completed (result s)"
    and "eo = None \<Longrightarrow> steps_completed (result s') = steps_completed (result s) \<or>
         steps_completed (result s') = steps_completed (result s) @ [step_name ph]"
proof -
  have "console s' = console s @ [PhaseBanner ph] \<and> config s' = config s \<and>
    success (result s') = success (result s) \<and> error (result s') = error (result s) \<and>
    (eo \<noteq> None \<longrightarrow> steps_completed (result s') = steps_completed (result s)) \<and>
    (eo = None \<longrightarrow> steps_completed (result s') = steps_completed (result s) \<or>
         steps_completed (result s') = steps_completed (result s) @ [step_name ph])"
  proof (cases ph)
    case Research
    with assms have "research_try w (banner Research s) = (s', eo)"
      by (simp add: try_phase_def)
    from research_try_frame [OF this] show ?thesis
      by (simp add: Research)
  next
    case Audio
    with assms have "audio_try w (banner Audio s) = (s', eo)"
      by (simp add: try_phase_def)
    from audio_try_frame [OF this] show ?thesis
      by (simp add: Audio)
  next
    case Documentation
    with assms have "documentation_try w (banner Documentation s) = (s', eo)"
      by (simp add: try_phase_def)
    from documentation_try_frame [OF this] show ?thesis
      by (simp add: Documentation)
  next
    case Persona
    with assms have "persona_try w (banner Persona s) = (s', eo)"
      by (simp add: try_phase_def)
    from persona_try_frame [OF this] show ?thesis
      by (simp add: Persona)
  qed
  then show "console s' = console s @ [PhaseBanner ph]"
    and "config s' = config s"
    and "success (result s') = success (result s)"
    and "error (result s') = error (result s)"
    and "eo \<noteq> None \<Longrightarrow> steps_completed (result s') = steps_completed (result s)"
    and "eo = None \<Longrightarrow> steps_completed (result s') = steps_completed (result s) \<or>
         steps_completed (result s') = steps_completed (result s) @ [step_name ph]"
    by simp_all
qed

lemma run_as_phases:
  "run w skip s =
     (if fst (run_phases w (planned skip (config s)) (run_start skip s))
      then (snd (run_phases w (planned skip (config s)) (run_start skip s)))
             \<lparr>result := (result (snd (run_phases w (planned skip (config s))
                 (run_start skip s))))\<lparr>success := True\<rparr>\<rparr>
      else snd (run_phases w (planned skip (config s)) (run_start skip s)))"
proof -
  define audio where "audio \<longleftrightarrow> truthy (audio_url (config s)) \<or> truthy (audio_file (config s))"
  define r1 where "r1 = (if \<not> skip then run_research w s
     else (True, s\<lparr>result := (result s)\<lparr>profile_path := Some (profile_json s)\<rparr>\<rparr>))"
  define r2 where "r2 = (if truthy (audio_url (config s)) \<or> truthy (audio_file (config s))
     then run_audio w (snd r1) else (True, snd r1))"
  define r3 where "r3 = run_documentation w (snd r2)"
  define r4 where "r4 = run_persona w (snd r3)"
  define tl where "tl = (if \<not> fst r3 then r3 else r4)"
  have run: "run w skip s =
     (if \<not> fst r1 then snd r1
      else if \<not> fst r2 then snd r2
      else if \<not> fst r3 then snd r3
      else if \<not> fst r4 then snd r4
      else (snd r4)\<lparr>result := (result (snd r4))\<lparr>success := True\<rparr>\<rparr>)"
    by (rule run_chain [OF r1_def r2_def r3_def r4_def])
  have tail: "run_phases w [Documentation, Persona] (snd r2) = tl"
    by (simp add: tl_def run_phase_def r3_def [symmetric] r4_def [symmetric] prod_eq_iff)
  define rest where "rest = (if audio then [Audio] else []) @ [Documentation, Persona]"
  have mid: "run_phases w rest (snd r1) = (if \<not> fst r2 then r2 else tl)"
  proof (cases audio)
    case True
    then have r2: "run_phase w Audio (snd r1) = r2"
      by (simp add: r2_def audio_def run_phase_def)
    show ?thesis
      using True
      by (simp add: rest_def run_phases.simps(2) [of w Audio "[Documentation, Persona]"] r2 tail
          del: run_phases.simps)
  next
    case False
    then have r2: "r2 = (True, snd r1)"
      by (simp add: r2_def audio_def)
    show ?thesis
      using False tail by (simp add: rest_def r2 del: run_phases.simps)
  qed
  have pl: "planned skip (config s) = (if skip then rest else Research # rest)"
    by (simp add: planned_def rest_def audio_def)
  have all: "run_phases w (planned skip (config s)) (run_start skip s)
      = (if \<not> fst r1 then r1 else if \<not> fst r2 then r2 else tl)"
  proof (cases skip)
    case True
    then have r1: "r1 = (True, run_start skip s)"
      by (simp add: r1_def run_start_def)
    from True pl have "planned skip (config s) = rest"
      by simp
    then show ?thesis
      using mid by (simp add: r1)
  next
    case False
    then have r1: "run_phase w Research s = r1" "run_start skip s = s"
      by (simp_all add: r1_def run_start_def run_phase_def)
    from False pl have "planned skip (config s) = Research # rest"
      by simp
    then show ?thesis
      by (simp add: r1 mid)
  qed
  show ?thesis
    unfolding all run tl_def by simp
qed

lemma run_phase_ok:
  assumes "try_phase w ph s = (s', None)"
  shows "run_phase w ph s = (True, s')"
  by (simp add: run_phase_handled assms handled_def)

lemma run_phase_raised:
  assumes "try_phase w ph s = (s', Some e)"
  shows "run_phase w ph s =
     (False, s'\<lparr>console := console s' @ [PhaseFailed ph e],
                 result := (result s')\<lparr>error := Some (exn_str e)\<rparr>\<rparr>)"
  by (simp add: run_phase_handled assms handled_def)

lemma run_phases_succeed: "fst (run_phases w phs s) \<longleftrightarrow> first_raise w phs s = None"
proof (induction phs arbitrary: s)
  case Nil
  show ?case
    by simp
next
  case (Cons ph phs)
  obtain s' eo where tr: "try_phase w ph s = (s', eo)"
    by (cases "try_phase w ph s")
  show ?case
  proof (cases eo)
    case None
    with tr have "run_phase w ph s = (True, s')"
      by (simp add: run_phase_ok)
    with Cons.IH [of s'] show ?thesis
      by (simp add: tr None)
  next
    case (Some e)
    with tr have "run_phase w ph s =
     (False, s'\<lparr>console := console s' @ [PhaseFailed ph e],
                 result := (result s')\<lparr>error := Some (exn_str e)\<rparr>\<rparr>)"
      by (simp add: run_phase_raised)
    then show ?thesis
      by (simp add: tr Some)
  qed
qed

text \<open>Where the calls of the phases stop when a \<open>try\<close> block raises.\<close>

lemma run_phases_raise:
  assumes "first_raise w phs s1 = Some (ph, e)"
    and "sorted_wrt (\<lambda>a b. phase_order a < phase_order b) phs"
    and "\<And>p q. p \<in> Q \<Longrightarrow> q \<in> set phs \<Longrightarrow> phase_order p < phase_order q"
    and "console s1 = console s @ printed" and "set printed \<subseteq> PhaseBanner ` Q"
    and "steps_completed (result s1) = steps_completed (result s) @ added"
    and "set added \<subseteq> step_name ` Q"
    and "success (result s1) = success (result s)"
  shows "\<exists>added' printed'.
     success (result (snd (run_phases w phs s1))) = success (result s) \<and>
     error (result (snd (run_phases w phs s1))) = Some (exn_str e) \<and>
     steps_completed (result (snd (run_phases w phs s1))) =
       steps_completed (result s) @ added' \<and>
     set added' \<subseteq> step_name ` {q. phase_order q < phase_order ph} \<and>
     console (snd (run_phases w phs s1)) =
       console s @ printed' @ [PhaseBanner ph, PhaseFailed ph e] \<and>
     set printed' \<subseteq> PhaseBanner ` {q. phase_order q < phase_order ph}"
  using assms
proof (induction phs arbitrary: s1 Q printed added)
  case Nil
  then show ?case
    by simp
next
  case (Cons p phs)
  obtain s2 eo where tr: "try_phase w p s1 = (s2, eo)"
    by (cases "try_phase w p s1")
  note fr = try_phase_frame [OF tr]
  have below: "Q \<subseteq> {q. phase_order q < phase_order p}"
    using Cons.prems(3) by auto
  show ?case
  proof (cases eo)
    case (Some e')
    with Cons.prems(1) tr have eq: "ph = p" "e = e'"
      by simp_all
    from tr Some have r: "run_phases w (p # phs) s1 =
       (False, s2\<lparr>console := console s2 @ [PhaseFailed p e'],
                   result := (result s2)\<lparr>error := Some (exn_str e')\<rparr>\<rparr>)"
      by (simp add: run_phase_raised)
    from fr(5) Some have st: "steps_completed (result s2) = steps_completed (result s) @ added"
      by (simp add: Cons.prems(6))
    have "success (result (snd (run_phases w (p # phs) s1))) = success (result s) \<and>
     error (result (snd (run_phases w (p # phs) s1))) = Some (exn_str e) \<and>
     steps_completed (result (snd (run_phases w (p # phs) s1))) =
       steps_completed (result s) @ added \<and>
     set added \<subseteq> step_name ` {q. phase_order q < phase_order ph} \<and>
     console (snd (run_phases w (p # phs) s1)) =
       console s @ printed @ [PhaseBanner ph, PhaseFailed ph e] \<and>
     set printed \<subseteq> PhaseBanner ` {q. phase_order q < phase_order ph}"
      unfolding r eq using fr(1,3) st Cons.prems(4,5,7,8) below
      by (simp del: run_phases.simps) blast
    then show ?thesis
      by blast
  next
    case None
    with tr have r: "run_phases w (p # phs) s1 = run_phases w phs s2"
      by (simp add: run_phase_ok)
    from Cons.prems(1) tr None have fr': "first_raise w phs s2 = Some (ph, e)"
      by simp
    from Cons.prems(2) have sorted: "sorted_wrt (\<lambda>a b. phase_order a < phase_order b) phs"
      and first: "\<And>q. q \<in> set phs \<Longrightarrow> phase_order p < phase_order q"
      by simp_all
    have ord: "phase_order p' < phase_order q" if "p' \<in> insert p Q" "q \<in> set phs" for p' q
      using that first Cons.prems(3) by auto
    have con: "console s2 = console s @ (printed @ [PhaseBanner p])"
      by (simp add: fr(1) Cons.prems(4))
    have pr: "set (printed @ [PhaseBanner p]) \<subseteq> PhaseBanner ` insert p Q"
      using Cons.prems(5) by auto
    have suc: "success (result s2) = success (result s)"
      by (simp add: fr(3) Cons.prems(8))
    from fr(6) None consider
      (same) "steps_completed (result s2) = steps_completed (result s) @ added"
      | (more) "steps_completed (result s2) = steps_completed (result s) @ (added @ [step_name p])"
      by (auto simp: Cons.prems(6))
    then show ?thesis
    proof cases
      case same
      have "set added \<subseteq> step_name ` insert p Q"
        using Cons.prems(7) by auto
      from Cons.IH [OF fr' sorted ord con pr same this suc] show ?thesis
        unfolding r by simp
    next
      case more
      have "set (added @ [step_name p]) \<subseteq> step_name ` insert p Q"
        using Cons.prems(7) by auto
      from Cons.IH [OF fr' sorted ord con pr more this suc] show ?thesis
        unfolding r by simp
    qed
  qed
qed

lemma planned_sorted: "sorted_wrt (\<lambda>a b. phase_order a < phase_order b) (planned skip c)"
  by (simp add: planned_def)

lemma run_start_fields [simp]:
  "console (run_start skip s) = console s"
  "config (run_start skip s) = config s"
  "steps_completed (result (run_start skip s)) = steps_completed (result s)"
  "success (result (run_start skip s)) = success (result s)"
  "error (result (run_start skip s)) = error (result s)"
  "files (run_start skip s) = files s"
  "subject_dir (run_start skip s) = subject_dir s"
  by (simp_all add: run_start_def)

text \<open>A run in which a phase raises.\<close>

lemma run_raise:
  assumes "raises_in_run w skip s = Some (ph, e)"
  shows "\<exists>added printed.
     success (result (run w skip s)) = success (result s) \<and>
     error (result (run w skip s)) = Some (exn_str e) \<and>
     steps_completed (result (run w skip s)) = steps_completed (result s) @ added \<and>
     set added \<subseteq> step_name ` {q. phase_order q < phase_order ph} \<and>
     console (run w skip s) = console s @ printed @ [PhaseBanner ph, PhaseFailed ph e] \<and>
     set printed \<subseteq> PhaseBanner ` {q. phase_order q < phase_order ph}"
proof -
  from assms have fr: "first_raise w (planned skip (config s)) (run_start skip s) = Some (ph, e)"
    by (simp add: raises_in_run_def)
  then have "\<not> fst (run_phases w (planned skip (config s)) (run_start skip s))"
    by (simp add: run_phases_succeed)
  then have run: "run w skip s = snd (run_phases w (planned skip (config s)) (run_start skip s))"
    using run_as_phases [of w skip s] by simp
  show ?thesis
    unfolding run
    by (rule run_phases_raise [where Q = "{}" and printed = "[]" and added = "[]",
          OF fr planned_sorted]) simp_all
qed

text \<open>A run in which no phase raises.\<close>

lemma run_success:
  "success (result (run w skip s)) \<longleftrightarrow> success (result s) \<or> raises_in_run w skip s = None"
proof (cases "raises_in_run w skip s")
  case None
  then have "fst (run_phases w (planned skip (config s)) (run_start skip s))"
    by (simp add: run_phases_succeed raises_in_run_def)
  then show ?thesis
    using run_as_phases [of w skip s] None by simp
next
  case (Some a)
  obtain ph e where "a = (ph, e)"
    by (cases a)
  with Some run_raise [of w skip s ph e] show ?thesis
    by auto
qed

lemma run_outcome:
  fixes w skip c fs
  defines "f \<equiv> run w skip (HumanPipeline_init c fs)"
  shows "(success (result f) \<and> error (result f) = None \<and> entered_only (set (planned skip c)) f) \<or>
     (\<not> success (result f) \<and>
      (\<exists>ph e. ph \<in> set (planned skip c) \<and>
         failed_at {q \<in> set (planned skip c). phase_order q < phase_order ph} ph e f))"
proof -
  define s0 where "s0 = HumanPipeline_init c fs"
  define audio where "audio \<longleftrightarrow>
    truthy (audio_url (config s0)) \<or> truthy (audio_file (config s0))"
  define r1 where "r1 = (if \<not> skip then run_research w s0
     else (True, s0\<lparr>result := (result s0)\<lparr>profile_path := Some (profile_json s0)\<rparr>\<rparr>))"
  define r2 where "r2 = (if audio then run_audio w (snd r1) else (True, snd r1))"
  define r3 where "r3 = run_documentation w (snd r2)"
  define r4 where "r4 = run_persona w (snd r3)"
  define P1 where "P1 = (if skip then {} else {Research})"
  define P2 where "P2 = P1 \<union> (if audio then {Audio} else {})"
  have s0: "entered_only {} s0" "\<not> success (result s0)" "error (result s0) = None"
    "config s0 = c"
    by (simp_all add: s0_def HumanPipeline_init_def entered_only_def)
  have f: "f = (if \<not> fst r1 then snd r1
         else if \<not> fst r2 then snd r2
         else if \<not> fst r3 then snd r3
         else if \<not> fst r4 then snd r4
         else (snd r4)\<lparr>result := (result (snd r4))\<lparr>success := True\<rparr>\<rparr>)"
    unfolding f_def s0_def [symmetric]
    by (rule run_chain [OF r1_def r2_def [unfolded audio_def] r3_def r4_def])
  have suc1: "\<not> success (result (snd r1))"
    using s0 run_research_step(1) [OF s0(1), of w] by (simp add: r1_def)
  have ok1: "entered_only P1 (snd r1) \<and> error (result (snd r1)) = None" if "fst r1"
    using that s0 run_research_step(2) [OF s0(1), of w]
    by (auto simp: r1_def P1_def entered_only_def split: if_splits)
  have ko1: "\<not> skip \<and> (\<exists>e. failed_at {} Research e (snd r1))" if "\<not> fst r1"
    using that run_research_step(3) [OF s0(1), of w]
    by (auto simp: r1_def split: if_splits)
  have suc2: "\<not> success (result (snd r2))" if "fst r1"
    using suc1 run_audio_step(1) [OF conjunct1 [OF ok1 [OF that]], of w]
    by (simp add: r2_def)
  have ok2: "entered_only P2 (snd r2) \<and> error (result (snd r2)) = None" if "fst r1" "fst r2"
    using that ok1 [OF that(1)] run_audio_step(2) [OF conjunct1 [OF ok1 [OF that(1)]], of w]
    by (auto simp: r2_def P2_def split: if_splits)
  have ko2: "audio \<and> (\<exists>e. failed_at P1 Audio e (snd r2))" if "fst r1" "\<not> fst r2"
    using that run_audio_step(3) [OF conjunct1 [OF ok1 [OF that(1)]], of w]
    by (auto simp: r2_def split: if_splits)
  have suc3: "\<not> success (result (snd r3))" if "fst r1" "fst r2"
    using suc2 [OF that(1)] run_documentation_step(1) [OF conjunct1 [OF ok2 [OF that]], of w]
    by (simp add: r3_def)
  have ok3: "entered_only (insert Documentation P2) (snd r3) \<and> error (result (snd r3)) = None"
    if "fst r1" "fst r2" "fst r3"
    using that ok2 [OF that(1,2)]
      run_documentation_step(2) [OF conjunct1 [OF ok2 [OF that(1,2)]], of w]
    by (auto simp: r3_def)
  have ko3: "\<exists>e. failed_at P2 Documentation e (snd r3)" if "fst r1" "fst r2" "\<not> fst r3"
    using that run_documentation_step(3) [OF conjunct1 [OF ok2 [OF that(1,2)]], of w]
    by (auto simp: r3_def)
  have suc4: "\<not> success (result (snd r4))" if "fst r1" "fst r2" "fst r3"
    using suc3 [OF that(1,2)] run_persona_step(1) [OF conjunct1 [OF ok3 [OF that]], of w]
    by (simp add: r4_def)
  have ok4: "entered_only (insert Persona (insert Documentation P2)) (snd r4) \<and>
      error (result (snd r4)) = None"
    if "fst r1" "fst r2" "fst r3" "fst r4"
    using that ok3 [OF that(1,2,3)]
      run_persona_step(2) [OF conjunct1 [OF ok3 [OF that(1,2,3)]], of w]
    by (auto simp: r4_def)
  have ko4: "\<exists>e. failed_at (insert Documentation P2) Persona e (snd r4)"
    if "fst r1" "fst r2" "fst r3" "\<not> fst r4"
    using that run_persona_step(3) [OF conjunct1 [OF ok3 [OF that(1,2,3)]], of w]
    by (auto simp: r4_def)
  have plan: "set (planned skip c) = insert Persona (insert Documentation P2)"
    by (auto simp: planned_def P2_def P1_def audio_def s0(4))
  consider (a) "\<not> fst r1" | (b) "fst r1" "\<not> fst r2" | (c) "fst r1" "fst r2" "\<not> fst r3"
    | (d) "fst r1" "fst r2" "fst r3" "\<not> fst r4" | (e) "fst r1" "fst r2" "fst r3" "fst r4"
    by blast
  then show ?thesis
  proof cases
    case a
    from ko1 [OF a] obtain e where e: "\<not> skip" "failed_at {} Research e (snd r1)"
      by blast
    have fa: "f = snd r1"
      using a by (simp add: f)
    have "Research \<in> set (planned skip c)"
      using e(1) by (simp add: planned_def)
    then show ?thesis
      unfolding fa using suc1 e(2) by (rule run_failedI) simp
  next
    case b
    from ko2 [OF b] obtain e where e: "audio" "failed_at P1 Audio e (snd r2)"
      by blast
    have fa: "f = snd r2"
      using b by (simp add: f)
    have "Audio \<in> set (planned skip c)"
      using e(1) by (simp add: planned_def audio_def s0(4))
    then show ?thesis
      unfolding fa using suc2 [OF b(1)] e(2)
      by (rule run_failedI) (auto simp: P1_def planned_def)
  next
    case c
    from ko3 [OF c] obtain e where e: "failed_at P2 Documentation e (snd r3)"
      by blast
    have fa: "f = snd r3"
      using c by (simp add: f)
    have "Documentation \<in> set (planned skip c)"
      by (simp add: planned_def)
    then show ?thesis
      unfolding fa using suc3 [OF c(1,2)] e
      by (rule run_failedI) (auto simp: P2_def P1_def planned_def audio_def s0(4) split: if_splits)
  next
    case d
    from ko4 [OF d] obtain e where e: "failed_at (insert Documentation P2) Persona e (snd r4)"
      by blast
    have fa: "f = snd r4"
      using d by (simp add: f)
    have "Persona \<in> set (planned skip c)"
      by (simp add: planned_def)
    then show ?thesis
      unfolding fa using suc4 [OF d(1,2,3)] e
      by (rule run_failedI) (auto simp: P2_def P1_def planned_def audio_def s0(4) split: if_splits)
  next
    case e
    have fa: "f = (snd r4)\<lparr>result := (result (snd r4))\<lparr>success := True\<rparr>\<rparr>"
      using e by (simp add: f)
    from ok4 [OF e] show ?thesis
      unfolding fa plan by (simp add: entered_only_def)
  qed
qed

lemma step_name_inj: "step_name q = step_name q' \<Longrightarrow> q = q'"
  by (cases q; cases q') simp_all

lemma audio_step_name:
  assumes "Audio \<notin> P"
  shows "''audio'' \<notin> step_name ` P"
proof
  assume "''audio'' \<in> step_name ` P"
  then obtain q where q: "q \<in> P" "step_name q = ''audio''"
    by (metis imageE)
  from q(2) have "q = Audio"
    by (cases q) simp_all
  with q(1) assms show False
    by simp
qed

text \<open>
  C3. Without an audio URL and without a local audio file, the audio phase is not
  entered and \<open>audio\<close> is not among the completed steps; the run succeeds exactly
  when no phase fails.
\<close>

theorem run_without_audio:
  assumes "\<not> truthy (audio_url c)" and "\<not> truthy (audio_file c)"
  shows "''audio'' \<notin> set (steps_completed (result (run w skip (HumanPipeline_init c fs)))) \<and>
    PhaseBanner Audio \<notin> set (console (run w skip (HumanPipeline_init c fs))) \<and>
    (success (result (run w skip (HumanPipeline_init c fs))) \<longleftrightarrow>
       (\<forall>ph e. PhaseFailed ph e \<notin> set (console (run w skip (HumanPipeline_init c fs)))))"
proof -
  let ?f = "run w skip (HumanPipeline_init c fs)"
  have plan: "Audio \<notin> set (planned skip c)"
    using assms by (simp add: planned_def)
  from run_outcome [of w skip c fs]
  consider (ok) "success (result ?f)" "entered_only (set (planned skip c)) ?f"
    | (ko) ph e where "\<not> success (result ?f)" "ph \<in> set (planned skip c)"
        "failed_at {q \<in> set (planned skip c). phase_order q < phase_order ph} ph e ?f"
    by blast
  then show ?thesis
  proof cases
    case ok
    from ok(2) have "set (console ?f) \<subseteq> PhaseBanner ` set (planned skip c)"
      and "set (steps_completed (result ?f)) \<subseteq> step_name ` set (planned skip c)"
      unfolding entered_only_def by simp_all
    with audio_step_name [OF plan] plan ok(1) show ?thesis
      by auto
  next
    case ko
    from ko(3) obtain pre where pre: "console ?f = pre @ [PhaseBanner ph, PhaseFailed ph e]"
      "set pre \<subseteq> PhaseBanner ` {q \<in> set (planned skip c). phase_order q < phase_order ph}"
      and steps: "set (steps_completed (result ?f))
        \<subseteq> step_name ` {q \<in> set (planned skip c). phase_order q < phase_order ph}"
      unfolding failed_at_def by blast
    have "Audio \<notin> {q \<in> set (planned skip c). phase_order q < phase_order ph}"
      using plan by simp
    from audio_step_name [OF this] have "''audio'' \<notin> set (steps_completed (result ?f))"
      using steps by blast
    moreover have "PhaseBanner Audio \<notin> set (console ?f)"
      using pre plan ko(2) by auto
    moreover have "PhaseFailed ph e \<in> set (console ?f)"
      by (simp add: pre(1))
    ultimately show ?thesis
      using ko(1) by blast
  qed
qed

lemma joinpath_names:
  "joinpath p ''research'' = \<lparr>root = root p, parts = parts p @ [''research'']\<rparr>"
  "joinpath p ''profile.json'' = \<lparr>root = root p, parts = parts p @ [''profile.json'']\<rparr>"
  "joinpath p ''audio'' = \<lparr>root = root p, parts = parts p @ [''audio'']\<rparr>"
  "joinpath p ''separated_vocals.wav'' =
     \<lparr>root = root p, parts = parts p @ [''separated_vocals.wav'']\<rparr>"
  "joinpath p ''docs'' = \<lparr>root = root p, parts = parts p @ [''docs'']\<rparr>"
  "joinpath p ''profile.md'' = \<lparr>root = root p, parts = parts p @ [''profile.md'']\<rparr>"
  "joinpath p ''facettes.md'' = \<lparr>root = root p, parts = parts p @ [''facettes.md'']\<rparr>"
  "joinpath p ''persona.json'' = \<lparr>root = root p, parts = parts p @ [''persona.json'']\<rparr>"
  "joinpath p ''system_prompt.txt'' =
     \<lparr>root = root p, parts = parts p @ [''system_prompt.txt'']\<rparr>"
  by (simp_all add: joinpath_def parse_path_def path_root_def)

lemma profile_json_banner [simp]: "profile_json (banner ph s) = profile_json s"
  by (simp add: profile_json_def)

lemma path_exists_False:
  "path_exists os fs p = Inr False \<longleftrightarrow> exists_error os p = None \<and> fs p = None"
  by (simp add: path_exists_def split: option.splits)

lemma separate_keeps_absent:
  assumes "fs p = None" and "p \<noteq> joinpath d (nm @ ''_vocals.wav'')"
  shows "snd (VocalSeparator_separate w d inp nm fs) p = None"
  using assms
  by (simp add: VocalSeparator_separate_def Let_def
      split: sum.splits bool.splits demucs_outcome.splits)

lemma acquire_audio_keeps_absent:
  assumes "files s p = None" and "\<And>entry. p \<noteq> path_child (joinpath (subject_dir s) ''audio'') entry"
  shows "snd (acquire_audio w s) p = None"
  using assms
  by (simp add: acquire_audio_def acquire_file_def acquire_download_def
      AudioDownloader_download_def Let_def
      split: option.splits sum.splits bool.splits yt_outcome.splits)

lemma audio_try_files:
  "files (fst (audio_try w s)) = snd (acquire_audio w s) \<or>
   (\<exists>inp. files (fst (audio_try w s)) =
      snd (VocalSeparator_separate w (joinpath (subject_dir s) ''audio'') inp ''separated''
        (snd (acquire_audio w s))))"
  by (auto simp: audio_try_def step_done_def
      split: option.splits sum.splits prod.splits if_splits; metis snd_conv)

lemma audio_try_keeps_absent:
  assumes "files s (profile_json s) = None" and "audio_try w s = (s', eo)"
  shows "files s' (profile_json s) = None"
proof -
  have ne1: "profile_json s \<noteq> path_child (joinpath (subject_dir s) ''audio'') entry" for entry
    by (simp add: profile_json_def joinpath_names path_child_def)
  have ne2: "profile_json s \<noteq>
      joinpath (joinpath (subject_dir s) ''audio'') (''separated'' @ ''_vocals.wav'')"
    by (simp add: profile_json_def joinpath_names)
  have a: "snd (acquire_audio w s) (profile_json s) = None"
    by (rule acquire_audio_keeps_absent [OF assms(1) ne1])
  from assms(2) have "s' = fst (audio_try w s)"
    by simp
  with audio_try_files [of w s] a
    separate_keeps_absent [where fs = "snd (acquire_audio w s)" and p = "profile_json s"
      and d = "joinpath (subject_dir s) ''audio''" and nm = "''separated''" and w = w, OF a ne2]
  show ?thesis
    by auto
qed

lemma try_audio_keeps_absent:
  assumes "path_exists os (files s) (profile_json s) = Inr False"
    and "try_phase w Audio s = (s', eo)"
  shows "path_exists os (files s') (profile_json s') = Inr False"
proof -
  from assms(2) have tr: "audio_try w (banner Audio s) = (s', eo)"
    by (simp add: try_phase_def)
  from assms(1) have "files (banner Audio s) (profile_json (banner Audio s)) = None"
    by (simp add: path_exists_False)
  from audio_try_keeps_absent [OF this tr] have "files s' (profile_json s) = None"
    by simp
  moreover from audio_try_frame [OF tr] have "profile_json s' = profile_json s"
    by (simp add: profile_json_def)
  ultimately show ?thesis
    using assms(1) by (simp add: path_exists_False)
qed

lemma try_documentation_absent:
  assumes "path_exists (system (research w)) (files s) (profile_json s) = Inr False"
  shows "try_phase w Documentation s = (banner Documentation s, None)"
  using assms by (simp add: try_phase_def documentation_try_def)

lemma try_persona_absent:
  assumes "path_exists (system (research w)) (files s) (profile_json s) = Inr False"
  shows "try_phase w Persona s = (banner Persona s, avatar_import w)"
  using assms by (simp add: try_phase_def persona_try_def split: option.splits)

lemma run_documentation_absent:
  assumes "path_exists (system (research w)) (files s) (profile_json s) = Inr False"
  shows "run_documentation w s = (True, banner Documentation s)"
  using assms by (simp add: run_documentation_def documentation_try_def handled_def)

lemma run_persona_absent:
  assumes "path_exists (system (research w)) (files s) (profile_json s) = Inr False"
    and "avatar_import w = None"
  shows "run_persona w s = (True, banner Persona s)"
  using assms by (simp add: run_persona_def persona_try_def handled_def)

lemma run_persona_import:
  assumes "avatar_import w = Some e"
  shows "run_persona w s =
     (False, (banner Persona s)
        \<lparr>console := console s @ [PhaseBanner Persona, PhaseFailed Persona e],
         result := (result s)\<lparr>error := Some (exn_str e)\<rparr>\<rparr>)"
  using assms by (simp add: run_persona_def persona_try_def handled_def)

text \<open>The documentation and persona phases of a run that finds no profile.\<close>

lemma run_tail_absent:
  assumes "path_exists (system (research w)) (files t) (profile_json t) = Inr False"
  defines "r \<equiv> run_phases w [Documentation, Persona] t"
  shows "first_raise w [Documentation, Persona] t = map_option (Pair Persona) (avatar_import w)"
    and "steps_completed (result (snd r)) = steps_completed (result t)"
    and "persona_path (result (snd r)) = persona_path (result t)"
    and "files (snd r) = files t"
    and "error (result (snd r)) =
           (case avatar_import w of None \<Rightarrow> error (result t) | Some e \<Rightarrow> Some (exn_str e))"
proof -
  have d: "try_phase w Documentation t = (banner Documentation t, None)"
    by (rule try_documentation_absent [OF assms(1)])
  have "path_exists (system (research w)) (files (banner Documentation t))
      (profile_json (banner Documentation t)) = Inr False"
    using assms(1) by simp
  from try_persona_absent [OF this]
  have p: "try_phase w Persona (banner Documentation t) =
      (banner Persona (banner Documentation t), avatar_import w)" .
  show "first_raise w [Documentation, Persona] t = map_option (Pair Persona) (avatar_import w)"
    by (simp add: d p split: option.splits)
  have r: "r = handled Persona (banner Persona (banner Documentation t), avatar_import w)"
    unfolding r_def
    by (simp add: run_phase_handled d p handled_def prod_eq_iff split: option.splits)
  show "steps_completed (result (snd r)) = steps_completed (result t)"
    and "persona_path (result (snd r)) = persona_path (result t)"
    and "files (snd r) = files t"
    and "error (result (snd r)) =
           (case avatar_import w of None \<Rightarrow> error (result t) | Some e \<Rightarrow> Some (exn_str e))"
    unfolding r by (simp_all add: handled_def split: option.splits)
qed

text \<open>A run that skips research and finds no profile.\<close>

lemma run_skip_absent:
  fixes w c fs
  defines "s0 \<equiv> HumanPipeline_init c fs"
  defines "f \<equiv> run w True s0"
  assumes absent: "path_exists (system (research w)) fs (profile_json s0) = Inr False"
  shows "''documentation'' \<notin> set (steps_completed (result f))"
    and "''persona'' \<notin> set (steps_completed (result f))"
    and "persona_path (result f) = None"
    and "files f (profile_json s0) = None"
    and "raises_in_run w True s0 = Some (ph, e) \<Longrightarrow>
           ph = Audio \<or> ph = Persona \<and> avatar_import w = Some e"
    and "\<not> truthy (audio_url c) \<Longrightarrow> \<not> truthy (audio_file c) \<Longrightarrow>
           steps_completed (result f) = [] \<and>
           raises_in_run w True s0 = map_option (Pair Persona) (avatar_import w) \<and>
           error (result f) = map_option exn_str (avatar_import w)"
proof -
  define s1 where "s1 = run_start True s0"
  define audio where "audio \<longleftrightarrow> truthy (audio_url c) \<or> truthy (audio_file c)"
  define tl where "tl = [Documentation, Persona]"
  define r where "r = run_phases w (planned True c) s1"
  have s1: "steps_completed (result s1) = []" "persona_path (result s1) = None"
    "error (result s1) = None" "config s0 = c" "profile_json s1 = profile_json s0"
    "files s1 = fs" "subject_dir s1 = subject_dir s0"
    by (simp_all add: s1_def s0_def run_start_def HumanPipeline_init_def profile_json_def)
  have abs1: "path_exists (system (research w)) (files s1) (profile_json s1) = Inr False"
    using absent by (simp add: s1)
  have pl: "planned True c = (if audio then Audio # tl else tl)"
    by (simp add: planned_def audio_def tl_def)
  have raises: "raises_in_run w True s0 = first_raise w (planned True c) s1"
    by (simp add: raises_in_run_def s1 s1_def)
  have f: "f = (if fst r then (snd r)\<lparr>result := (result (snd r))\<lparr>success := True\<rparr>\<rparr> else snd r)"
    unfolding f_def r_def s1_def using run_as_phases [of w True s0] by (simp add: s1(4))
  have facts: "set (steps_completed (result (snd r))) \<subseteq> {''audio''} \<and>
      persona_path (result (snd r)) = None \<and>
      files (snd r) (profile_json s0) = None \<and>
      (\<forall>ph e. first_raise w (planned True c) s1 = Some (ph, e) \<longrightarrow>
         ph = Audio \<or> ph = Persona \<and> avatar_import w = Some e) \<and>
      (\<not> audio \<longrightarrow> steps_completed (result (snd r)) = [] \<and>
         first_raise w (planned True c) s1 = map_option (Pair Persona) (avatar_import w) \<and>
         error (result (snd r)) = map_option exn_str (avatar_import w))"
  proof (cases audio)
    case False
    then have r: "r = run_phases w [Documentation, Persona] s1"
      and p: "planned True c = [Documentation, Persona]"
      by (simp_all add: r_def pl tl_def)
    note t = run_tail_absent [OF abs1, folded r]
    have "files (snd r) (profile_json s0) = None"
      using absent by (simp add: t(4) s1 path_exists_False)
    moreover have "error (result (snd r)) = map_option exn_str (avatar_import w)"
      by (simp add: t(5) s1 split: option.splits)
    ultimately show ?thesis
      using False unfolding p t(1) by (auto simp: t(2,3) s1)
  next
    case True
    obtain s2 eo where tr: "try_phase w Audio s1 = (s2, eo)"
      by (cases "try_phase w Audio s1")
    from tr have tr': "audio_try w (banner Audio s1) = (s2, eo)"
      by (simp add: try_phase_def)
    note fr = audio_try_frame [OF tr']
    have abs2: "path_exists (system (research w)) (files s2) (profile_json s2) = Inr False"
      by (rule try_audio_keeps_absent [OF abs1 tr])
    have pj2: "profile_json s2 = profile_json s0"
      using fr by (simp add: profile_json_def s1(7))
    have pp2: "persona_path (result s2) = None"
      using fr by (simp add: s1)
    have st2: "set (steps_completed (result s2)) \<subseteq> {''audio''}"
      using fr by (cases eo) (auto simp: s1)
    have p: "planned True c = Audio # [Documentation, Persona]"
      using True by (simp add: pl tl_def)
    show ?thesis
    proof (cases eo)
      case (Some e')
      have r: "r = (False, s2\<lparr>console := console s2 @ [PhaseFailed Audio e'],
                 result := (result s2)\<lparr>error := Some (exn_str e')\<rparr>\<rparr>)"
        unfolding r_def p using run_phase_raised [OF tr [unfolded Some]] by simp
      have fr1: "first_raise w (planned True c) s1 = Some (Audio, e')"
        unfolding p by (simp add: tr Some)
      show ?thesis
        using True st2 pp2 abs2 unfolding r fr1 by (simp add: pj2 path_exists_False)
    next
      case None
      have r: "r = run_phases w [Documentation, Persona] s2"
        unfolding r_def p using run_phase_ok [OF tr [unfolded None]] by simp
      have fr1: "first_raise w (planned True c) s1 = first_raise w [Documentation, Persona] s2"
        unfolding p by (simp add: tr None)
      note t = run_tail_absent [OF abs2, folded r]
      have "files (snd r) (profile_json s0) = None"
        using abs2 by (simp add: t(4) pj2 path_exists_False)
      then show ?thesis
        using True st2 pp2 unfolding fr1 t(1) by (auto simp: t(2,3))
    qed
  qed
  have fields: "steps_completed (result f) = steps_completed (result (snd r))"
    "persona_path (result f) = persona_path (result (snd r))"
    "files f = files (snd r)" "error (result f) = error (result (snd r))"
    by (simp_all add: f)
  from facts show "''documentation'' \<notin> set (steps_completed (result f))"
    and "''persona'' \<notin> set (steps_completed (result f))"
    and "persona_path (result f) = None"
    and "files f (profile_json s0) = None"
    unfolding fields by auto
  from facts show "ph = Audio \<or> ph = Persona \<and> avatar_import w = Some e"
    if "raises_in_run w True s0 = Some (ph, e)"
    using that unfolding raises by blast
  from facts show "steps_completed (result f) = [] \<and>
           raises_in_run w True s0 = map_option (Pair Persona) (avatar_import w) \<and>
           error (result f) = map_option exn_str (avatar_import w)"
    if "\<not> truthy (audio_url c)" "\<not> truthy (audio_file c)"
    using that unfolding raises fields audio_def by blast
qed



text \<open>
  C4 as stated fails: where \<open>torch\<close> is not installed, the persona phase of a run that
  finds no profile answers False with the error of its import, and the run fails.
\<close>

theorem missing_profile_phases_skipped_counterexample:
  "path_exists (system (research torchless_world))
     (files (HumanPipeline_init (PipelineConfig_init ''John Doe'' None None None) Map.empty))
     (profile_json (HumanPipeline_init (PipelineConfig_init ''John Doe'' None None None) Map.empty))
     = Inr False \<and>
   \<not> fst (run_persona torchless_world
     (HumanPipeline_init (PipelineConfig_init ''John Doe'' None None None) Map.empty)) \<and>
   error (result (snd (run_persona torchless_world
     (HumanPipeline_init (PipelineConfig_init ''John Doe'' None None None) Map.empty)))) =
     Some (''No module named '' @ py_quote ''torch'') \<and>
   \<not> success (result (run torchless_world True
     (HumanPipeline_init (PipelineConfig_init ''John Doe'' None None None) Map.empty)))"
proof -
  let ?c = "PipelineConfig_init ''John Doe'' None None None"
  let ?s = "HumanPipeline_init ?c Map.empty"
  have ex: "path_exists (system (research torchless_world)) Map.empty p = Inr False" for p
    by (simp add: path_exists_def torchless_world_def stub_world_def stub_research_def
        demo_os_def)
  have fs: "files ?s = Map.empty"
    by (simp add: HumanPipeline_init_def)
  have imp: "avatar_import torchless_world =
      Some (Exception ''ModuleNotFoundError'' (''No module named '' @ py_quote ''torch''))"
    by (simp add: torchless_world_def)
  have h1: "\<not> truthy (audio_url ?c)" and h2: "\<not> truthy (audio_file ?c)"
    by (simp_all add: PipelineConfig_init_def truthy_def)
  note t = run_skip_absent(6) [where w = torchless_world and c = ?c and fs = Map.empty,
      OF ex h1 h2]
  have "raises_in_run torchless_world True ?s \<noteq> None"
    using t by (simp add: imp)
  moreover have "\<not> success (result ?s)"
    by (simp add: HumanPipeline_init_def)
  ultimately have a: "\<not> success (result (run torchless_world True ?s))"
    by (simp add: run_success)
  have b: "\<not> fst (run_persona torchless_world ?s)"
    "error (result (snd (run_persona torchless_world ?s))) =
       Some (''No module named '' @ py_quote ''torch'')"
    by (simp_all add: run_persona_import [OF imp])
  show ?thesis
    using a b ex by (simp add: fs)
qed

text \<open>
  C4, amended. When looking for the profile answers that there is none, the documentation
  phase answers True and leaves the files and the result as they were, and so does the
  persona phase provided the import of the avatar package, the first thing in its
  \<open>try\<close> block, does not raise. A run that skips research and finds no profile completes
  neither step and writes neither a profile nor a persona; the documentation phase never
  raises in it, the persona phase raises only on that import, and the run succeeds
  exactly when no phase raises.
\<close>

theorem missing_profile_phases_skipped:
  "(path_exists (system (research w)) (files s) (profile_json s) = Inr False \<longrightarrow>
      fst (run_documentation w s) \<and>
      files (snd (run_documentation w s)) = files s \<and>
      result (snd (run_documentation w s)) = result s \<and>
      (avatar_import w = None \<longrightarrow>
         fst (run_persona w s) \<and>
         files (snd (run_persona w s)) = files s \<and>
         result (snd (run_persona w s)) = result s)) \<and>
   (path_exists (system (research w)) fs (profile_json (HumanPipeline_init c fs)) = Inr False \<longrightarrow>
      ''documentation'' \<notin> set (steps_completed (result (run w True (HumanPipeline_init c fs)))) \<and>
      ''persona'' \<notin> set (steps_completed (result (run w True (HumanPipeline_init c fs)))) \<and>
      persona_path (result (run w True (HumanPipeline_init c fs))) = None \<and>
      files (run w True (HumanPipeline_init c fs)) (profile_json (HumanPipeline_init c fs)) = None \<and>
      (\<forall>e. raises_in_run w True (HumanPipeline_init c fs) \<noteq> Some (Documentation, e)) \<and>
      (avatar_import w = None \<longrightarrow>
         (\<forall>e. raises_in_run w True (HumanPipeline_init c fs) \<noteq> Some (Persona, e))) \<and>
      (success (result (run w True (HumanPipeline_init c fs))) \<longleftrightarrow>
         raises_in_run w True (HumanPipeline_init c fs) = None))"
proof (intro conjI impI allI)
  assume a: "path_exists (system (research w)) (files s) (profile_json s) = Inr False"
  then show "fst (run_documentation w s)" "files (snd (run_documentation w s)) = files s"
    "result (snd (run_documentation w s)) = result s"
    by (simp_all add: run_documentation_absent)
  assume "avatar_import w = None"
  with a show "fst (run_persona w s)"
    "files (snd (run_persona w s)) = files s" "result (snd (run_persona w s)) = result s"
    by (simp_all add: run_persona_absent)
next
  assume absent: "path_exists (system (research w)) fs (profile_json (HumanPipeline_init c fs))
    = Inr False"
  note sk = run_skip_absent [where fs = fs and c = c and w = w, OF absent]
  show "''documentation'' \<notin> set (steps_completed (result (run w True (HumanPipeline_init c fs))))"
    by (rule sk(1))
  show "''persona'' \<notin> set (steps_completed (result (run w True (HumanPipeline_init c fs))))"
    by (rule sk(2))
  show "persona_path (result (run w True (HumanPipeline_init c fs))) = None"
    by (rule sk(3))
  show "files (run w True (HumanPipeline_init c fs)) (profile_json (HumanPipeline_init c fs)) = None"
    by (rule sk(4))
  show "raises_in_run w True (HumanPipeline_init c fs) \<noteq> Some (Documentation, e)" for e
    using sk(5) [of Documentation e] by auto
  show "raises_in_run w True (HumanPipeline_init c fs) \<noteq> Some (Persona, e)"
    if "avatar_import w = None" for e
    using sk(5) [of Persona e] that by auto
  have "\<not> success (result (HumanPipeline_init c fs))"
    by (simp add: HumanPipeline_init_def)
  then show "success (result (run w True (HumanPipeline_init c fs))) \<longleftrightarrow>
         raises_in_run w True (HumanPipeline_init c fs) = None"
    by (simp add: run_success)
qed

text \<open>C3 at a configuration whose audio file is the empty string.\<close>

theorem run_without_audio_witness:
  "\<not> truthy (audio_url (PipelineConfig_init ''John Doe'' None None (Some []))) \<and>
   \<not> truthy (audio_file (PipelineConfig_init ''John Doe'' None None (Some []))) \<and>
   (''audio'' \<notin> set (steps_completed (result (run stub_world False
       (HumanPipeline_init (PipelineConfig_init ''John Doe'' None None (Some [])) Map.empty)))) \<and>
    PhaseBanner Audio \<notin> set (console (run stub_world False
       (HumanPipeline_init (PipelineConfig_init ''John Doe'' None None (Some [])) Map.empty))) \<and>
    (success (result (run stub_world False
       (HumanPipeline_init (PipelineConfig_init ''John Doe'' None None (Some [])) Map.empty))) \<longleftrightarrow>
       (\<forall>ph e. PhaseFailed ph e \<notin> set (console (run stub_world False
       (HumanPipeline_init (PipelineConfig_init ''John Doe'' None None (Some [])) Map.empty))))))"
proof -
  have h1: "\<not> truthy (audio_url (PipelineConfig_init ''John Doe'' None None (Some [])))"
    by (simp add: PipelineConfig_init_def truthy_def)
  have h2: "\<not> truthy (audio_file (PipelineConfig_init ''John Doe'' None None (Some [])))"
    by (simp add: PipelineConfig_init_def truthy_def)
  show ?thesis
    by (intro conjI h1 h2 run_without_audio [OF h1 h2])
qed


text \<open>C4, amended, with the stub collaborators on an empty file system, an audio URL configured.\<close>

theorem missing_profile_phases_skipped_witness:
  "path_exists (system (research stub_world))
     (files (HumanPipeline_init (PipelineConfig_init ''John Doe'' None (Some ''https://example.org/v'') None) Map.empty))
     (profile_json (HumanPipeline_init (PipelineConfig_init ''John Doe'' None (Some ''https://example.org/v'') None) Map.empty))
     = Inr False \<and>
   avatar_import stub_world = None \<and>
   fst (run_documentation stub_world
     (HumanPipeline_init (PipelineConfig_init ''John Doe'' None (Some ''https://example.org/v'') None) Map.empty)) \<and>
   fst (run_persona stub_world
     (HumanPipeline_init (PipelineConfig_init ''John Doe'' None (Some ''https://example.org/v'') None) Map.empty)) \<and>
   ''documentation'' \<notin> set (steps_completed (result (run stub_world True
     (HumanPipeline_init (PipelineConfig_init ''John Doe'' None (Some ''https://example.org/v'') None) Map.empty)))) \<and>
   ''persona'' \<notin> set (steps_completed (result (run stub_world True
     (HumanPipeline_init (PipelineConfig_init ''John Doe'' None (Some ''https://example.org/v'') None) Map.empty)))) \<and>
   persona_path (result (run stub_world True
     (HumanPipeline_init (PipelineConfig_init ''John Doe'' None (Some ''https://example.org/v'') None) Map.empty))) = None \<and>
   (\<forall>e. raises_in_run stub_world True
     (HumanPipeline_init (PipelineConfig_init ''John Doe'' None (Some ''https://example.org/v'') None) Map.empty)
       \<noteq> Some (Documentation, e)) \<and>
   (\<forall>e. raises_in_run stub_world True
     (HumanPipeline_init (PipelineConfig_init ''John Doe'' None (Some ''https://example.org/v'') None) Map.empty)
       \<noteq> Some (Persona, e)) \<and>
   success (result (run stub_world True
     (HumanPipeline_init (PipelineConfig_init ''John Doe'' None (Some ''https://example.org/v'') None) Map.empty))) =
     (raises_in_run stub_world True
       (HumanPipeline_init (PipelineConfig_init ''John Doe'' None (Some ''https://example.org/v'') None) Map.empty)
      = None)"
proof -
  let ?c = "PipelineConfig_init ''John Doe'' None (Some ''https://example.org/v'') None"
  let ?s = "HumanPipeline_init ?c Map.empty"
  have ex: "path_exists (system (research stub_world)) Map.empty p = Inr False" for p
    by (simp add: path_exists_def stub_world_def stub_research_def demo_os_def)
  have fs: "files ?s = Map.empty"
    by (simp add: HumanPipeline_init_def)
  have h: "path_exists (system (research stub_world)) (files ?s) (profile_json ?s) = Inr False"
    unfolding fs by (rule ex)
  have h': "path_exists (system (research stub_world)) Map.empty (profile_json ?s) = Inr False"
    by (rule ex)
  have h4: "avatar_import stub_world = None"
    by (simp add: stub_world_def)
  note t = missing_profile_phases_skipped [of stub_world ?s Map.empty ?c]
  note u = mp [OF conjunct1 [OF t] h]
  note v = mp [OF conjunct2 [OF t] h']
  note v5 = conjunct2 [OF conjunct2 [OF conjunct2 [OF conjunct2 [OF v]]]]
  have a: "fst (run_documentation stub_world ?s)"
    by (rule conjunct1 [OF u])
  have b: "fst (run_persona stub_world ?s)"
    by (rule conjunct1 [OF mp [OF conjunct2 [OF conjunct2 [OF conjunct2 [OF u]]] h4]])
  have c: "''documentation'' \<notin> set (steps_completed (result (run stub_world True ?s)))"
    by (rule conjunct1 [OF v])
  have d: "''persona'' \<notin> set (steps_completed (result (run stub_world True ?s)))"
    by (rule conjunct1 [OF conjunct2 [OF v]])
  have e: "persona_path (result (run stub_world True ?s)) = None"
    by (rule conjunct1 [OF conjunct2 [OF conjunct2 [OF v]]])
  have f: "\<forall>e. raises_in_run stub_world True ?s \<noteq> Some (Documentation, e)"
    by (rule conjunct1 [OF v5])
  have g: "\<forall>e. raises_in_run stub_world True ?s \<noteq> Some (Persona, e)"
    by (rule mp [OF conjunct1 [OF conjunct2 [OF v5]] h4])
  have i: "success (result (run stub_world True ?s)) =
     (raises_in_run stub_world True ?s = None)"
    by (rule conjunct2 [OF conjunct2 [OF v5]])
  show ?thesis
    by (rule conjI [OF h conjI [OF h4 conjI [OF a conjI [OF b conjI [OF c conjI [OF d
          conjI [OF e conjI [OF f conjI [OF g i]]]]]]]]])
qed


subsection \<open>The John Doe scenario\<close>

lemma load_saved:
  assumes "fs path = Some (JsonFile (to_dict p))"
  shows "PersonProfile_load os fs path = Inr (reloaded p)"
  by (simp add: PersonProfile_load_def read_json_def bind_def assms
      PersonProfile_from_json_to_dict reloaded_def)

lemma extract_profile_fields:
  "name (extract_profile w found) = searched_name found"
  "facettes (extract_profile w found) = []"
  by (simp_all add: extract_profile_def PersonProfile_init_def Let_def)

lemma run_research_ok:
  assumes "searcher_init (research w) = None"
    and "PersonSearcher_search (research w) (subject_name (config s))
           (subject_context (config s)) = Inr found"
    and "write_error (system (research w)) (profile_json s) = None"
  shows "run_research w s =
     (True, step_done ''research''
        ((banner Research s)
           \<lparr>files := (files s)(profile_json s \<mapsto>
               JsonFile (to_dict (extract_profile (research w) found))),
            result := (result s)\<lparr>profile_path := Some (profile_json s)\<rparr>\<rparr>))"
  using assms
  by (simp add: run_research_def research_try_def handled_def PersonProfile_save_def
      write_file_def Let_def)

lemma run_documentation_ok:
  assumes "files s (profile_json s) = Some (JsonFile (to_dict p))"
    and "facettes p = []"
    and "generator_init w = None"
    and "render_profile w (reloaded p) = Inr rendered"
    and "write_error (system (research w))
           (joinpath (joinpath (subject_dir s) ''docs'') ''profile.md'') = None"
    and "exists_error (system (research w)) (profile_json s) = None"
    and "mkdir_error (system (research w))
           (path_parent (joinpath (joinpath (subject_dir s) ''docs'') ''profile.md'')) = None"
  shows "run_documentation w s =
     (True, step_done ''documentation''
        ((banner Documentation s)
           \<lparr>files := (files s)(joinpath (joinpath (subject_dir s) ''docs'') ''profile.md''
               \<mapsto> TextFile rendered)\<rparr>))"
proof -
  have fa: "facettes (reloaded p) = []"
    by (simp add: reloaded_def assms(2))
  show ?thesis
    using assms(1,3,4,5,6,7) fa
    by (simp add: run_documentation_def documentation_try_def handled_def path_exists_def
        load_saved [where fs = "files s" and path = "profile_json s", OF assms(1)]
        generate_profile_def bind_def write_in_parent_def write_file_def)
qed

lemma run_persona_ok:
  assumes "files s (profile_json s) = Some (JsonFile (to_dict p))"
    and "write_error (system (research w)) (joinpath (subject_dir s) ''persona.json'') = None"
    and "write_error (system (research w)) (joinpath (subject_dir s) ''system_prompt.txt'')
           = None"
    and "avatar_import w = None"
    and "exists_error (system (research w)) (profile_json s) = None"
    and "mkdir_error (system (research w))
           (path_parent (joinpath (subject_dir s) ''persona.json'')) = None"
  shows "run_persona w s =
     (True, step_done ''persona''
        ((banner Persona s)
           \<lparr>files := (files s)
              (joinpath (subject_dir s) ''persona.json'' \<mapsto>
                 JsonFile (PersonaPrompt_to_json (PromptGenerator_generate (reloaded p) [] None)),
               joinpath (subject_dir s) ''system_prompt.txt'' \<mapsto>
                 TextFile (system_prompt (PromptGenerator_generate (reloaded p) [] None))),
            result := (result s)
              \<lparr>persona_path := Some (joinpath (subject_dir s) ''persona.json'')\<rparr>\<rparr>))"
  using assms
  by (simp add: run_persona_def persona_try_def handled_def path_exists_def
      load_saved [where fs = "files s" and path = "profile_json s", OF assms(1)]
      PersonaPrompt_save_def write_in_parent_def write_file_def Let_def)

lemma john_doe_dir:
  "get_subject_dir (PipelineConfig_init ''John Doe'' context au af) =
     \<lparr>root = [], parts = [''data'', ''subjects'', ''john_doe'']\<rparr>"
proof -
  have low: "py_lower ''John Doe'' = ''john doe''"
    by code_simp
  show ?thesis
    by (simp add: get_subject_dir_def PipelineConfig_init_def low py_replace_char
        joinpath_def parse_path_def path_root_def)
qed

text \<open>The run of the scenario, when nothing raises.\<close>

lemma john_doe_run:
  assumes init: "searcher_init (research w) = None"
    and search: "client_search (research w) ''John Doe'' = Inr [r]"
    and writes: "\<And>p. write_error (system (research w)) p = None"
    and looks: "\<And>p. exists_error (system (research w)) p = None"
    and mkdirs: "\<And>p. mkdir_error (system (research w)) p = None"
    and gen: "generator_init w = None"
    and render: "\<And>p. render_profile w p = Inr (doc p)"
    and import: "avatar_import w = None"
  shows "subject_dir (create_human w fs ''John Doe'' None None None False) =
      \<lparr>root = [], parts = [''data'', ''subjects'', ''john_doe'']\<rparr> \<and>
    path_str (result_subject_dir (result (create_human w fs ''John Doe'' None None None False)))
      = ''data/subjects/john_doe'' \<and>
    steps_completed (result (create_human w fs ''John Doe'' None None None False)) =
      [''research'', ''documentation'', ''persona''] \<and>
    success (result (create_human w fs ''John Doe'' None None None False)) \<and>
    persona_path (result (create_human w fs ''John Doe'' None None None False)) =
      Some \<lparr>root = [], parts = [''data'', ''subjects'', ''john_doe'', ''persona.json'']\<rparr> \<and>
    (\<exists>d. files (create_human w fs ''John Doe'' None None None False)
            \<lparr>root = [], parts = [''data'', ''subjects'', ''john_doe'', ''persona.json'']\<rparr>
          = Some (JsonFile (JObject d)) \<and>
         dict_get d ''name'' = Some (JString ''John Doe''))"
proof -
  define c where "c = PipelineConfig_init ''John Doe'' None None None"
  define sd where "sd = \<lparr>root = [], parts = [''data'', ''subjects'', ''john_doe'']\<rparr>"
  define pj where "pj = \<lparr>root = [], parts = [''data'', ''subjects'', ''john_doe'',
    ''research'', ''profile.json'']\<rparr>"
  define found where "found = \<lparr>searched_name = ''John Doe'', query = ''John Doe'',
    timestamp = now (system (research w)), results = [r]\<rparr>"
  define P where "P = extract_profile (research w) found"
  define s0 where "s0 = HumanPipeline_init c fs"
  define s1 where "s1 = step_done ''research''
        ((banner Research s0)
           \<lparr>files := (files s0)(profile_json s0 \<mapsto> JsonFile (to_dict P)),
            result := (result s0)\<lparr>profile_path := Some (profile_json s0)\<rparr>\<rparr>)"
  define s3 where "s3 = step_done ''documentation''
        ((banner Documentation s1)
           \<lparr>files := (files s1)(joinpath (joinpath (subject_dir s1) ''docs'') ''profile.md''
               \<mapsto> TextFile (doc (reloaded P)))\<rparr>)"
  define persona where "persona = PromptGenerator_generate (reloaded P) [] None"
  define s4 where "s4 = step_done ''persona''
        ((banner Persona s3)
           \<lparr>files := (files s3)
              (joinpath (subject_dir s3) ''persona.json'' \<mapsto>
                 JsonFile (PersonaPrompt_to_json persona),
               joinpath (subject_dir s3) ''system_prompt.txt'' \<mapsto>
                 TextFile (system_prompt persona)),
            result := (result s3)
              \<lparr>persona_path := Some (joinpath (subject_dir s3) ''persona.json'')\<rparr>\<rparr>)"
  have cfg: "subject_name c = ''John Doe''" "subject_context c = None"
    "audio_url c = None" "audio_file c = None"
    by (simp_all add: c_def PipelineConfig_init_def)
  have s0: "config s0 = c" "subject_dir s0 = sd" "steps_completed (result s0) = []"
    "result_subject_dir (result s0) = sd"
    by (simp_all add: s0_def HumanPipeline_init_def c_def john_doe_dir sd_def)
  have dirs: "subject_dir s1 = sd" "subject_dir s3 = sd"
    by (simp_all add: s3_def s1_def step_done_def s0)
  have pjs: "profile_json s0 = pj" "profile_json s1 = pj" "profile_json s3 = pj"
    by (simp_all add: profile_json_def dirs s0 sd_def pj_def joinpath_names)
  have found: "PersonSearcher_search (research w) (subject_name (config s0))
      (subject_context (config s0)) = Inr found"
    by (simp add: s0 cfg PersonSearcher_search_def search bind_def found_def Let_def)
  have r1: "run_research w s0 = (True, s1)"
    unfolding s1_def P_def by (rule run_research_ok [OF init found writes])
  have f1: "files s1 (profile_json s1) = Some (JsonFile (to_dict P))"
    by (simp add: pjs) (simp add: s1_def step_done_def pjs)
  have P: "facettes P = []" "name P = ''John Doe''"
    by (simp_all add: P_def extract_profile_fields found_def)
  have r3: "run_documentation w s1 = (True, s3)"
    unfolding s3_def by (rule run_documentation_ok [OF f1 P(1) gen render writes looks mkdirs])
  have f3: "files s3 (profile_json s3) = Some (JsonFile (to_dict P))"
    by (simp add: pjs) (simp add: s3_def s1_def step_done_def pjs dirs sd_def pj_def
        joinpath_names)
  have r4: "run_persona w s3 = (True, s4)"
    unfolding s4_def persona_def by (rule run_persona_ok [OF f3 writes writes import looks mkdirs])
  have run: "run w False s0 = s4\<lparr>result := (result s4)\<lparr>success := True\<rparr>\<rparr>"
    using run_chain [OF refl refl refl refl, of w False s0]
    by (simp add: r1 s0 cfg truthy_def r3 r4)
  have F: "create_human w fs ''John Doe'' None None None False =
      s4\<lparr>result := (result s4)\<lparr>success := True\<rparr>\<rparr>"
    unfolding create_human_def c_def [symmetric] s0_def [symmetric] by (rule run)
  have steps: "steps_completed (result s4) = [''research'', ''documentation'', ''persona'']"
    by (simp add: s4_def s3_def s1_def step_done_def s0)
  have rsd: "result_subject_dir (result s4) = sd" "subject_dir s4 = sd"
    by (simp_all add: s4_def s3_def s1_def step_done_def s0)
  have pp: "persona_path (result s4) =
      Some \<lparr>root = [], parts = [''data'', ''subjects'', ''john_doe'', ''persona.json'']\<rparr>"
    by (simp add: s4_def step_done_def dirs sd_def joinpath_names)
  have pfile: "files s4 \<lparr>root = [], parts = [''data'', ''subjects'', ''john_doe'',
      ''persona.json'']\<rparr> = Some (JsonFile (PersonaPrompt_to_json persona))"
    by (simp add: s4_def step_done_def dirs sd_def joinpath_names)
  have pname: "persona_name persona = ''John Doe''"
    by (simp add: persona_def PromptGenerator_generate_def Let_def reloaded_def P)
  have str: "path_str sd = ''data/subjects/john_doe''"
    by (simp add: sd_def path_str_def)
  have json: "\<exists>d. files s4 \<lparr>root = [], parts = [''data'', ''subjects'', ''john_doe'',
      ''persona.json'']\<rparr> = Some (JsonFile (JObject d)) \<and>
      dict_get d ''name'' = Some (JString ''John Doe'')"
    unfolding pfile by (simp add: PersonaPrompt_to_json_def dict_get_def pname)
  show ?thesis
    unfolding F using steps rsd pp json str by (simp add: sd_def)
qed


text \<open>
  C5. For the subject \<open>John Doe\<close> without an audio source, when the search answers
  one result and nothing raises (neither the searcher, the file system, the document
  generator and its templates, nor the import of the avatar package in the persona
  phase), the subject directory is \<open>data/subjects/john_doe\<close>,
  the completed steps are research, documentation and persona in that order, and the
  persona path names a file \<open>persona.json\<close> that exists and whose \<open>name\<close> is
  \<open>John Doe\<close> as given.
\<close>

theorem john_doe_scenario:
  assumes init: "searcher_init (research w) = None"
    and search: "client_search (research w) ''John Doe'' = Inr [r]"
    and writes: "\<And>p. write_error (system (research w)) p = None"
    and looks: "\<And>p. exists_error (system (research w)) p = None"
    and mkdirs: "\<And>p. mkdir_error (system (research w)) p = None"
    and gen: "generator_init w = None"
    and render: "\<And>p. render_profile w p = Inr (doc p)"
    and import: "avatar_import w = None"
  shows "subject_dir (create_human w fs ''John Doe'' None None None False) =
      \<lparr>root = [], parts = [''data'', ''subjects'', ''john_doe'']\<rparr> \<and>
    path_str (result_subject_dir (result (create_human w fs ''John Doe'' None None None False)))
      = ''data/subjects/john_doe'' \<and>
    steps_completed (result (create_human w fs ''John Doe'' None None None False)) =
      [''research'', ''documentation'', ''persona''] \<and>
    success (result (create_human w fs ''John Doe'' None None None False)) \<and>
    persona_path (result (create_human w fs ''John Doe'' None None None False)) =
      Some \<lparr>root = [], parts = [''data'', ''subjects'', ''john_doe'', ''persona.json'']\<rparr> \<and>
    (\<exists>d. files (create_human w fs ''John Doe'' None None None False)
            \<lparr>root = [], parts = [''data'', ''subjects'', ''john_doe'', ''persona.json'']\<rparr>
          = Some (JsonFile (JObject d)) \<and>
         dict_get d ''name'' = Some (JString ''John Doe''))"
  using assms by (rule john_doe_run)

text \<open>C5 with the stub collaborators, on an empty file system.\<close>

theorem john_doe_scenario_witness:
  "searcher_init (research stub_world) = None \<and>
   client_search (research stub_world) ''John Doe'' = Inr [stub_result] \<and>
   write_error (system (research stub_world)) = (\<lambda>p. None) \<and>
   exists_error (system (research stub_world)) = (\<lambda>p. None) \<and>
   mkdir_error (system (research stub_world)) = (\<lambda>p. None) \<and>
   generator_init stub_world = None \<and>
   render_profile stub_world = (\<lambda>p. Inr (''# '' @ name p)) \<and>
   avatar_import stub_world = None \<and>
   (subject_dir (create_human stub_world Map.empty ''John Doe'' None None None False) =
      \<lparr>root = [], parts = [''data'', ''subjects'', ''john_doe'']\<rparr> \<and>
    path_str (result_subject_dir
        (result (create_human stub_world Map.empty ''John Doe'' None None None False)))
      = ''data/subjects/john_doe'' \<and>
    steps_completed (result (create_human stub_world Map.empty ''John Doe'' None None None False)) =
      [''research'', ''documentation'', ''persona''] \<and>
    success (result (create_human stub_world Map.empty ''John Doe'' None None None False)) \<and>
    persona_path (result (create_human stub_world Map.empty ''John Doe'' None None None False)) =
      Some \<lparr>root = [], parts = [''data'', ''subjects'', ''john_doe'', ''persona.json'']\<rparr> \<and>
    (\<exists>d. files (create_human stub_world Map.empty ''John Doe'' None None None False)
            \<lparr>root = [], parts = [''data'', ''subjects'', ''john_doe'', ''persona.json'']\<rparr>
          = Some (JsonFile (JObject d)) \<and>
         dict_get d ''name'' = Some (JString ''John Doe'')))"
proof -
  have h1: "searcher_init (research stub_world) = None"
    by (simp add: stub_world_def stub_research_def)
  have h2: "client_search (research stub_world) ''John Doe'' = Inr [stub_result]"
    by (simp add: stub_world_def stub_research_def stub_result_def)
  have h3: "write_error (system (research stub_world)) = (\<lambda>p. None)"
    by (simp add: stub_world_def stub_research_def demo_os_def)
  have h4: "exists_error (system (research stub_world)) = (\<lambda>p. None)"
    by (simp add: stub_world_def stub_research_def demo_os_def)
  have h5: "mkdir_error (system (research stub_world)) = (\<lambda>p. None)"
    by (simp add: stub_world_def stub_research_def demo_os_def)
  have h6: "generator_init stub_world = None"
    by (simp add: stub_world_def)
  have h7: "render_profile stub_world = (\<lambda>p. Inr (''# '' @ name p))"
    by (simp add: stub_world_def)
  have h8: "avatar_import stub_world = None"
    by (simp add: stub_world_def)
  have h3': "write_error (system (research stub_world)) p = None" for p
    by (simp add: h3)
  have h4': "exists_error (system (research stub_world)) p = None" for p
    by (simp add: h4)
  have h5': "mkdir_error (system (research stub_world)) p = None" for p
    by (simp add: h5)
  have h7': "render_profile stub_world p = Inr (''# '' @ name p)" for p
    by (simp add: h7)
  note t = john_doe_scenario [where w = stub_world and r = stub_result and fs = Map.empty
      and doc = "\<lambda>p. ''# '' @ name p", OF h1 h2 h3' h4' h5' h6 h7' h8]
  show ?thesis
    by (rule conjI [OF h1 conjI [OF h2 conjI [OF h3 conjI [OF h4 conjI [OF h5 conjI [OF h6
          conjI [OF h7 conjI [OF h8 t]]]]]]]])
qed


subsection \<open>A phase that raises\<close>

lemma stub_run_john_doe:
  "success (result (run stub_world False
     (HumanPipeline_init (PipelineConfig_init ''John Doe'' None None None) Map.empty))) \<and>
   steps_completed (result (run stub_world False
     (HumanPipeline_init (PipelineConfig_init ''John Doe'' None None None) Map.empty))) =
     [''research'', ''documentation'', ''persona'']"
proof -
  have "success (result (create_human stub_world Map.empty ''John Doe'' None None None False)) \<and>
    steps_completed (result (create_human stub_world Map.empty ''John Doe'' None None None False))
      = [''research'', ''documentation'', ''persona'']"
    using john_doe_run [where w = stub_world and r = stub_result and fs = Map.empty
      and doc = "\<lambda>p. ''# '' @ name p"]
    by (simp add: stub_world_def stub_research_def stub_result_def demo_os_def)
  then show ?thesis
    by (simp add: create_human_def)
qed

lemma search_raises:
  assumes "searcher_init (research w) = None"
    and "\<And>q. client_search (research w) q = Inl e"
  shows "raises_in_run w False s = Some (Research, e)"
  using assms
  by (simp add: raises_in_run_def planned_def run_start_def try_phase_def research_try_def
      PersonSearcher_search_def bind_def Let_def)

text \<open>
  C2 as stated fails, in two ways. A search that raises an exception without a message
  leaves an empty error string. And \<open>run\<close> does not reset the result: when the pipeline
  has run with success before, a second run in which the research phase raises still
  answers \<open>success = True\<close>, with the steps of the first run.
\<close>

theorem run_phase_exception_counterexample:
  "raises_in_run failing_world False
     (HumanPipeline_init (PipelineConfig_init ''John Doe'' None None None) Map.empty) =
     Some (Research, Exception ''TimeoutError'' []) \<and>
   error (result (run failing_world False
     (HumanPipeline_init (PipelineConfig_init ''John Doe'' None None None) Map.empty))) = Some [] \<and>
   raises_in_run failing_world False
     (run stub_world False
        (HumanPipeline_init (PipelineConfig_init ''John Doe'' None None None) Map.empty)) =
     Some (Research, Exception ''TimeoutError'' []) \<and>
   success (result (run failing_world False
     (run stub_world False
        (HumanPipeline_init (PipelineConfig_init ''John Doe'' None None None) Map.empty)))) \<and>
   ''research'' \<in> set (steps_completed (result (run failing_world False
     (run stub_world False
        (HumanPipeline_init (PipelineConfig_init ''John Doe'' None None None) Map.empty)))))"
proof -
  let ?s0 = "HumanPipeline_init (PipelineConfig_init ''John Doe'' None None None) Map.empty"
  let ?s1 = "run stub_world False ?s0"
  have r: "raises_in_run failing_world False s = Some (Research, Exception ''TimeoutError'' [])"
    for s
    by (rule search_raises) (simp_all add: failing_world_def stub_world_def stub_research_def)
  from run_raise [OF r [of ?s0]]
  have a: "error (result (run failing_world False ?s0)) = Some []"
    by auto
  from run_raise [OF r [of ?s1]] obtain added where
    "success (result (run failing_world False ?s1)) = success (result ?s1)"
    "steps_completed (result (run failing_world False ?s1)) =
       steps_completed (result ?s1) @ added"
    by auto
  with stub_run_john_doe
  have b: "success (result (run failing_world False ?s1))"
    and c: "''research'' \<in> set (steps_completed (result (run failing_world False ?s1)))"
    by simp_all
  show ?thesis
    by (rule conjI [OF r conjI [OF a conjI [OF r conjI [OF b c]]]])
qed

text \<open>
  C2, amended. When a phase of a run raises, that is, when the \<open>try\<close> block of a phase
  the run calls is left by an exception, none having been in an earlier phase, then the
  run leaves \<open>success\<close> as it found it (False on a fresh pipeline, since only a run
  without a raise sets it), the error is the string form of the exception (empty when
  that is), the steps this run has added to \<open>steps_completed\<close> all belong to phases
  before the failing one, and no later phase is entered: after the banners of earlier
  phases, the banner of the failing phase and the line of its handler are the last
  things printed.
\<close>

theorem run_phase_exception:
  assumes "raises_in_run w skip s = Some (ph, e)"
  shows "\<exists>added printed.
     success (result (run w skip s)) = success (result s) \<and>
     error (result (run w skip s)) = Some (exn_str e) \<and>
     steps_completed (result (run w skip s)) = steps_completed (result s) @ added \<and>
     set added \<subseteq> step_name ` {q. phase_order q < phase_order ph} \<and>
     console (run w skip s) = console s @ printed @ [PhaseBanner ph, PhaseFailed ph e] \<and>
     set printed \<subseteq> PhaseBanner ` {q. phase_order q < phase_order ph}"
  using assms by (rule run_raise)

text \<open>C2, amended, on a fresh pipeline when the search client is unreachable.\<close>

theorem run_phase_exception_witness:
  "raises_in_run offline_world False
     (HumanPipeline_init (PipelineConfig_init ''John Doe'' None None None) Map.empty) =
     Some (Research, Exception ''ConnectionError'' ''network unreachable'') \<and>
   success (result (run offline_world False
     (HumanPipeline_init (PipelineConfig_init ''John Doe'' None None None) Map.empty))) = False \<and>
   error (result (run offline_world False
     (HumanPipeline_init (PipelineConfig_init ''John Doe'' None None None) Map.empty))) =
     Some ''network unreachable'' \<and>
   steps_completed (result (run offline_world False
     (HumanPipeline_init (PipelineConfig_init ''John Doe'' None None None) Map.empty))) = [] \<and>
   console (run offline_world False
     (HumanPipeline_init (PipelineConfig_init ''John Doe'' None None None) Map.empty)) =
     [PhaseBanner Research,
      PhaseFailed Research (Exception ''ConnectionError'' ''network unreachable'')]"
proof -
  let ?s0 = "HumanPipeline_init (PipelineConfig_init ''John Doe'' None None None) Map.empty"
  let ?e = "Exception ''ConnectionError'' ''network unreachable''"
  have h: "raises_in_run offline_world False ?s0 = Some (Research, ?e)"
    by (rule search_raises) (simp_all add: offline_world_def stub_world_def stub_research_def)
  have fresh: "success (result ?s0) = False" "steps_completed (result ?s0) = []"
    "console ?s0 = []"
    by (simp_all add: HumanPipeline_init_def)
  from run_phase_exception [OF h] obtain added printed where
    t: "success (result (run offline_world False ?s0)) = success (result ?s0)"
      "error (result (run offline_world False ?s0)) = Some (exn_str ?e)"
      "steps_completed (result (run offline_world False ?s0)) =
         steps_completed (result ?s0) @ added"
      "set added \<subseteq> step_name ` {q. phase_order q < phase_order Research}"
      "console (run offline_world False ?s0) =
         console ?s0 @ printed @ [PhaseBanner Research, PhaseFailed Research ?e]"
      "set printed \<subseteq> PhaseBanner ` {q. phase_order q < phase_order Research}"
    by blast
  from t(4,6) have "added = []" "printed = []"
    by simp_all
  with t(1,2,3,5) fresh h show ?thesis
    by simp
qed


subsection \<open>The avatar engine\<close>

lemma consume_finished:
  assumes "gen_state g = Finished"
  shows "snd (consume w k (e, g)) = (e, g)"
  using assms by (induction k) (simp_all add: gen_next_def Let_def)

lemma consume_suspended:
  assumes "gen_state g = Suspended tokens ending full"
  shows "history (fst (snd (consume w k (e, g)))) =
     (if ending = None \<and> length tokens < k
      then history e @ [turn ''user'' (gen_message g),
             turn ''assistant'' (py_strip (full @ concat tokens))]
      else history e)"
  using assms
proof (induction k arbitrary: tokens full g e)
  case 0
  then show ?case by simp
next
  case (Suc k)
  show ?case
  proof (cases tokens)
    case Nil
    show ?thesis
    proof (cases ending)
      case None
      have "gen_next w (e, g) =
          (StopIteration,
           e\<lparr>history := history e @
               [turn ''user'' (gen_message g), turn ''assistant'' (py_strip full)]\<rparr>,
           g\<lparr>gen_state := Finished\<rparr>)"
        by (simp add: gen_next_def stream_loop_def Suc.prems Nil None)
      then show ?thesis
        by (simp add: Let_def consume_finished Nil None)
    next
      case (Some x)
      have "gen_next w (e, g) = (Raised x, e, g\<lparr>gen_state := Finished\<rparr>)"
        by (simp add: gen_next_def stream_loop_def Suc.prems Nil Some)
      then show ?thesis
        by (simp add: Let_def consume_finished Some)
    qed
  next
    case (Cons token rest)
    have step: "gen_next w (e, g) =
        (Yield token, e, g\<lparr>gen_state := Suspended rest ending (full @ token)\<rparr>)"
      by (simp add: gen_next_def stream_loop_def Suc.prems Cons)
    have "history (fst (snd (consume w k
          (e, g\<lparr>gen_state := Suspended rest ending (full @ token)\<rparr>)))) =
       (if ending = None \<and> length rest < k
        then history e @ [turn ''user'' (gen_message g),
               turn ''assistant'' (py_strip ((full @ token) @ concat rest))]
        else history e)"
      using Suc.IH [of "g\<lparr>gen_state := Suspended rest ending (full @ token)\<rparr>" rest
          "full @ token" e]
      by simp
    then show ?thesis
      by (simp add: Let_def step Cons)
  qed
qed

lemma gen_next_created:
  assumes "gen_state g = Created"
  shows "gen_next w (e, g) =
     gen_next w (e, g\<lparr>gen_state := Suspended (fst (llm_stream w (build_prompt e (gen_message g))))
        (snd (llm_stream w (build_prompt e (gen_message g)))) []\<rparr>)"
  by (simp add: gen_next_def assms Let_def stream_loop_def split: list.splits option.splits)

lemma consume_created:
  assumes "gen_state g = Created"
  shows "history (fst (snd (consume w k (e, g)))) =
     history (fst (snd (consume w k
       (e, g\<lparr>gen_state := Suspended (fst (llm_stream w (build_prompt e (gen_message g))))
          (snd (llm_stream w (build_prompt e (gen_message g)))) []\<rparr>))))"
proof (cases k)
  case 0
  then show ?thesis by simp
next
  case (Suc k')
  then show ?thesis
    by (simp add: Let_def gen_next_created [OF assms])
qed

text \<open>
  C7. After \<open>k\<close> calls of \<open>next\<close> on the generator of \<open>chat_stream\<close> the history is
  as before the call unless the stream has ended without raising and \<open>k\<close> exceeds the
  number of its fragments; then one user turn and one assistant turn have been appended,
  once. Closing the generator, wherever it stands, leaves the history as it is.
\<close>

theorem chat_stream_history:
  "history (fst (snd (consume w k (e, chat_stream user_message)))) =
     (if snd (llm_stream w (build_prompt e user_message)) = None \<and>
         length (fst (llm_stream w (build_prompt e user_message))) < k
      then history e @
        [turn ''user'' user_message,
         turn ''assistant''
           (py_strip (concat (fst (llm_stream w (build_prompt e user_message)))))]
      else history e) \<and>
   history (fst (gen_close (snd (consume w k (e, chat_stream user_message))))) =
     history (fst (snd (consume w k (e, chat_stream user_message))))"
proof
  have created: "gen_state (chat_stream user_message) = Created"
    by (simp add: chat_stream_def)
  have msg: "gen_message (chat_stream user_message) = user_message"
    by (simp add: chat_stream_def)
  let ?st = "llm_stream w (build_prompt e user_message)"
  let ?g = "(chat_stream user_message)\<lparr>gen_state := Suspended (fst ?st) (snd ?st) []\<rparr>"
  have "history (fst (snd (consume w k (e, chat_stream user_message)))) =
      history (fst (snd (consume w k (e, ?g))))"
    using consume_created [OF created, of w k e] by (simp add: msg)
  also have "\<dots> = (if snd ?st = None \<and> length (fst ?st) < k
      then history e @ [turn ''user'' (gen_message ?g),
             turn ''assistant'' (py_strip ([] @ concat (fst ?st)))]
      else history e)"
    by (rule consume_suspended) simp
  finally show "history (fst (snd (consume w k (e, chat_stream user_message)))) =
     (if snd ?st = None \<and> length (fst ?st) < k
      then history e @ [turn ''user'' user_message,
             turn ''assistant'' (py_strip (concat (fst ?st)))]
      else history e)"
    by (simp add: msg)
  show "history (fst (gen_close (snd (consume w k (e, chat_stream user_message))))) =
     history (fst (snd (consume w k (e, chat_stream user_message))))"
    by (simp add: gen_close_def)
qed







text \<open>C7 on a stream of three fragments: three calls of \<open>next\<close>, then a fourth.\<close>

theorem chat_stream_history_witness:
  "history (fst (snd (consume stub_avatar 3 (demo_engine, chat_stream ''Salut'')))) = [] \<and>
   history (fst (gen_close (snd (consume stub_avatar 3 (demo_engine, chat_stream ''Salut'')))))
     = [] \<and>
   history (fst (snd (consume stub_avatar 4 (demo_engine, chat_stream ''Salut'')))) =
     [turn ''user'' ''Salut'', turn ''assistant'' ''Bonjour!'']"
proof -
  have st: "llm_stream stub_avatar p = ([''Bon'', ''jour'', ''! ''], None)" for p
    by (simp add: stub_avatar_def)
  have h0: "history demo_engine = []"
    by (simp add: demo_engine_def AvatarEngine_init_def)
  have strip: "py_strip ''Bonjour! '' = ''Bonjour!''"
    by (simp add: py_strip_def py_isspace_def)
  note t3 = chat_stream_history [of stub_avatar 3 demo_engine "''Salut''"]
  note t4 = chat_stream_history [of stub_avatar 4 demo_engine "''Salut''"]
  have a: "history (fst (snd (consume stub_avatar 3 (demo_engine, chat_stream ''Salut'')))) = []"
    using conjunct1 [OF t3] by (simp add: st h0)
  have b: "history (fst (gen_close (snd (consume stub_avatar 3
      (demo_engine, chat_stream ''Salut''))))) = []"
    using conjunct2 [OF t3] a by simp
  have c: "history (fst (snd (consume stub_avatar 4 (demo_engine, chat_stream ''Salut'')))) =
     [turn ''user'' ''Salut'', turn ''assistant'' ''Bonjour!'']"
    using conjunct1 [OF t4] by (simp add: st h0 strip)
  show ?thesis
    by (rule conjI [OF a conjI [OF b c]])
qed


end
